theory Spec2Isabelle
  imports Main
begin

section \<open>The recorder application's command executor and event dispatch\<close>

text \<open>
  A shallow embedding of class \<open>RecorderApp\<close> (the TypeScript file that defines
  \<open>_handleUIEvent\<close>, \<open>_executeUIAction\<close>, \<open>_executeUIExtraction\<close>,
  \<open>_executeArbitraryCode\<close>, \<open>_onSignalAdded\<close> and \<open>_updateActions\<close>) and of
  the types of \<open>recorderTypes.d.ts\<close>. Private members lose their leading underscore
  (\<open>_handleUIEvent\<close> is \<open>handleUIEvent\<close>), since an Isabelle name starts with a letter.

  Conventions of the embedding:
  \<^item> A JavaScript string is a \<open>string\<close> whose characters are code units below 256.
  \<^item> A thrown exception or a rejected promise is \<open>Inl e\<close>; a normal return or a
    fulfilled promise is \<open>Inr v\<close>. Every operation returns the state it leaves behind
    next to its outcome, because a JavaScript exception does not undo earlier writes.
  \<^item> An \<open>async\<close> method is run to completion: each \<open>await\<close> of an operation of the
    browser is a call of the environment \<open>env\<close>, which answers with the outcome and the
    time the operation took.
  \<^item> Operations of other modules (the code generators, the browser's frames, the action
    runner) are fields of the record \<open>env\<close>.
\<close>

subsection \<open>JavaScript values, strings and exceptions\<close>

datatype js_value =
    JUndefined
  | JNull
  | JBool bool
  | JNumber int
  | JString string
  | JObject nat

text \<open>JavaScript's \<open>ToBoolean\<close>, as used by \<open>||\<close>, \<open>?:\<close> and \<open>if\<close>. Numbers are
  integers here, so fractions and the falsy \<open>NaN\<close> have no counterpart.\<close>

fun truthy :: "js_value \<Rightarrow> bool" where
  "truthy JUndefined = False"
| "truthy JNull = False"
| "truthy (JBool b) = b"
| "truthy (JNumber n) = (n \<noteq> 0)"
| "truthy (JString s) = (s \<noteq> [])"
| "truthy (JObject _) = True"

text \<open>\<open>a || b\<close> on values.\<close>

definition js_or :: "js_value \<Rightarrow> js_value \<Rightarrow> js_value" where
  "js_or a b = (if truthy a then a else b)"

text \<open>\<open>args[0]\<close>: reading past the end of an array yields \<open>undefined\<close>.\<close>

definition arg0 :: "js_value list \<Rightarrow> js_value" where
  "arg0 as = (case as of [] \<Rightarrow> JUndefined | a # _ \<Rightarrow> a)"

text \<open>A thrown value: an \<open>Error\<close> object with its message, or any other value, kept as
  the text \<open>String(e)\<close> gives for it.\<close>

datatype exn = Error string | NonError string

text \<open>\<open>e instanceof Error ? e.message : String(e)\<close>.\<close>

fun errorMessage :: "exn \<Rightarrow> string" where
  "errorMessage (Error m) = m"
| "errorMessage (NonError s) = s"

text \<open>The white space and line terminators of ECMAScript among the code units below 256:
  TAB, LF, VT, FF, CR, SPACE and NO-BREAK SPACE. (Beyond 255 there are further ones, such
  as U+2028 and U+FEFF, which a \<open>string\<close> here cannot hold.)\<close>

definition isWhiteSpace :: "char \<Rightarrow> bool" where
  "isWhiteSpace c = ((of_char c :: nat) \<in> {9, 10, 11, 12, 13, 32, 160})"

text \<open>\<open>String.prototype.trim\<close>.\<close>

definition trim :: "string \<Rightarrow> string" where
  "trim s = rev (dropWhile isWhiteSpace (rev (dropWhile isWhiteSpace s)))"

text \<open>\<open>!s?.trim()\<close> for an optional string: true when \<open>s\<close> is absent or trims to the
  empty string.\<close>

definition notTrimmed :: "string option \<Rightarrow> bool" where
  "notTrimmed s = (case s of None \<Rightarrow> True | Some t \<Rightarrow> trim t = [])"

text \<open>A template literal \<open>`${s}`\<close> of an optional string.\<close>

definition interpolate :: "string option \<Rightarrow> string" where
  "interpolate s = (case s of None \<Rightarrow> ''undefined'' | Some t \<Rightarrow> t)"

subsection \<open>Actions in context\<close>

text \<open>A signal (a navigation, a popup, a download, a dialog) is opaque here.\<close>

datatype signal = Signal string

text \<open>The fields an action carries besides \<open>name\<close>, \<open>selector\<close> and \<open>signals\<close>.\<close>

datatype actionFields =
    ClickFields (modifiers: nat) (button: string) (clickCount: nat)
  | FillFields (fillText: js_value)
  | PressFields (key: js_value) (pressModifiers: nat)
  | NoFields
  | SelectFields (options: "js_value list")
  | ArgsFields (actionArgs: "js_value list")

record action =
  name :: string
  selector :: string
  signals :: "signal list"
  detail :: actionFields

record frameDescription =
  pageGuid :: string
  pageAlias :: string
  framePath :: "string list"

record actionInContext =
  frame :: frameDescription
  action :: action
  startTime :: nat

subsection \<open>Pages, frames and the queries of an extraction\<close>

record page =
  guid :: string

record frame =
  framePage :: page
  frameName :: string

text \<open>The read-only \<open>Frame\<close> methods \<open>_performExtraction\<close> calls, with their arguments:
  the selector, the attribute name of \<open>getAttribute\<close>, and the \<open>strict\<close> option.\<close>

datatype frameQuery =
    InnerText string bool
  | TextContent string bool
  | GetAttribute string js_value bool
  | IsVisible string bool
  | IsEnabled string bool
  | IsChecked string bool
  | LocatorCount string
  | ElementBoundingBox string bool

subsection \<open>Call log, sources and generators (\<open>recorderTypes.d.ts\<close>)\<close>

datatype callLogStatus = InProgress | Done | ErrorStatus | Paused

record callLog =
  logId :: nat
  title :: string
  messages :: "string list"
  status :: callLogStatus
  error :: "string option"
  reveal :: "bool option"
  duration :: "nat option"
  paramsUrl :: "string option"
  paramsSelector :: "string option"
  createdAt :: nat

record sourceHighlight =
  line :: nat
  highlightType :: string

record source =
  isRecorded :: bool
  sourceId :: string
  label :: string
  sourceText :: string
  language :: string
  highlight :: "sourceHighlight list"
  revealLine :: "nat option"
  group :: "string option"
  header :: "string option"
  footer :: "string option"
  sourceActions :: "string list option"

record languageGenerator =
  generatorId :: string
  groupName :: string
  generatorName :: string
  highlighter :: string

record languageGeneratorOptions =
  browserName :: string
  deviceName :: "string option"
  saveStorage :: "string option"
  generateAutoExpect :: "bool option"

record generatedCode =
  genHeader :: string
  genFooter :: string
  genActionTexts :: "string list"
  genText :: string

subsection \<open>Inbound events\<close>

text \<open>The \<open>params\<close> object of an inbound event is untyped in the source (\<open>data: any\<close>):
  every member may be absent. \<open>highlightSelector\<close> is \<open>params.selector\<close> and
  \<open>actionName\<close> is \<open>params.action\<close>.\<close>

record eventParams =
  fileId :: "string option"
  autoExpect :: "bool option"
  mode :: "string option"
  highlightSelector :: "string option"
  ariaTemplate :: "string option"
  locator :: "string option"
  actionName :: "string option"
  extraction :: "string option"
  args :: "js_value list option"
  code :: "string option"

record eventData =
  event :: string
  params :: eventParams

subsection \<open>The session state\<close>

text \<open>What the application does to the world around it, in the order it does it:
  \<^item> calls of methods of the \<open>Recorder\<close> object (\<open>RecorderClear\<close> to
    \<open>UpdateTemporaryCallLog\<close>); class \<open>Recorder\<close> lives in another module, and what
    its call-log helpers and \<open>frameForSelector\<close> do is modelled below;
  \<^item> operations dispatched to the live page: the action runner, a frame query with its
    deadline, an evaluated expression;
  \<^item> calls into the control surface page (\<open>window.playwrightSetSources\<close>,
    \<open>playwrightSelectSource\<close>, \<open>playwrightExtractionResult\<close>);
  \<^item> \<open>console.error\<close> with its label and the error printed;
  \<^item> the rejection of a promise that nothing handles, which the runtime reports to the
    process.\<close>

datatype effect =
    RecorderClear
  | SetLanguage string
  | SetMode "string option"
  | Resume
  | Pause
  | Step
  | SetHighlightedSelector string
  | SetHighlightedAriaTemplate string
  | PushTemporaryCallLog actionInContext
  | UpdateTemporaryCallLog nat callLogStatus js_value
  | PerformActionCall actionInContext
  | FrameQueryCall frame frameQuery nat
  | EvalCodeCall page string
  | SetSources "source list"
  | SelectSource string
  | ExtractionResult js_value string
  | ConsoleError string exn
  | UnhandledRejection exn

record recorderApp =
  pageAliases :: "(page \<times> string) list"
  callLogs :: "callLog list"
  nextCallLogId :: nat
  actions :: "actionInContext list"
  userSources :: "source list"
  recorderSources :: "source list"
  primaryGeneratorId :: string
  selectedGeneratorId :: string
  generatorOptions :: languageGeneratorOptions
  throttledOutputFile :: "string option option"
  trace :: "effect list"
  now :: nat

text \<open>\<open>pageAliases\<close> is the \<open>Map<Page, string>\<close> of the recorder in insertion order.
  \<open>throttledOutputFile\<close> is \<open>None\<close> for \<open>null\<close> and \<open>Some c\<close> for a file whose
  content to write is \<open>c\<close>. \<open>trace\<close> is the sequence of effects so far. \<open>now\<close> is
  what \<open>Date.now()\<close> returns.\<close>

text \<open>The collaborators that live in other modules. An operation that is awaited answers
  with its outcome and the time it took.\<close>

record env =
  languageSet :: "languageGenerator list"
  collapseActions :: "actionInContext list \<Rightarrow> actionInContext list"
  generateCode ::
    "actionInContext list \<Rightarrow> languageGenerator \<Rightarrow> languageGeneratorOptions \<Rightarrow> exn + generatedCode"
  performAction :: "(page \<times> string) list \<Rightarrow> actionInContext \<Rightarrow> (exn + unit) \<times> nat"
  frameCall :: "frame \<Rightarrow> frameQuery \<Rightarrow> nat \<Rightarrow> (exn + js_value) \<times> nat"
  evalCode :: "page \<Rightarrow> string \<Rightarrow> (exn + js_value) \<times> nat"
  scanFrames :: "page list \<Rightarrow> string \<Rightarrow> exn + frame"
  display :: "js_value \<Rightarrow> string"

subsection \<open>The recorder's helpers\<close>

text \<open>One more effect.\<close>

definition emit :: "effect \<Rightarrow> recorderApp \<Rightarrow> recorderApp" where
  "emit x st = st\<lparr> trace := trace st @ [x] \<rparr>"

text \<open>Modelled from the spec: \<open>Recorder.pushTemporaryCallLog\<close> (class \<open>Recorder\<close>,
  \<open>recorder.ts\<close>, is missing). The spec's \<open>create(action) -> logId\<close> "allocates an id,
  inserts an in-progress entry, returns the id synchronously before the underlying
  operation begins"; an entry's \<open>params.selector\<close> is the action's selector. The title,
  on which the spec is silent, is the action's name.\<close>

definition pushTemporaryCallLog :: "actionInContext \<Rightarrow> recorderApp \<Rightarrow> nat \<times> recorderApp" where
  "pushTemporaryCallLog a st =
     (let i = nextCallLogId st;
          entry = \<lparr> logId = i, title = name (action a), messages = [], status = InProgress,
                    error = None, reveal = None, duration = None, paramsUrl = None,
                    paramsSelector = Some (selector (action a)), createdAt = now st \<rparr>
      in (i, st\<lparr> callLogs := callLogs st @ [entry],
                  nextCallLogId := Suc i,
                  trace := trace st @ [PushTemporaryCallLog a] \<rparr>))"

text \<open>Modelled from the spec: \<open>Recorder.updateTemporaryCallLog\<close> (missing with class
  \<open>Recorder\<close>). The spec's \<open>complete(logId, status, payloadOrMessage)\<close> "sets terminal
  status, records duration = now - createdAt, and for error status stores the message; for
  done status on an extraction command stores the returned value as a message for
  display". The entry is addressed by its id; a payload that is \<open>undefined\<close> stores
  nothing.\<close>

definition completeEntry :: "env \<Rightarrow> nat \<Rightarrow> callLogStatus \<Rightarrow> js_value \<Rightarrow> callLog \<Rightarrow> callLog" where
  "completeEntry e t s payload entry =
     entry\<lparr> status := s,
            duration := Some (t - createdAt entry),
            error := (if s = ErrorStatus
                      then Some (case payload of JString m \<Rightarrow> m | v \<Rightarrow> display e v)
                      else error entry),
            messages := (if s = Done \<and> payload \<noteq> JUndefined
                         then messages entry @ [display e payload]
                         else messages entry) \<rparr>"

text \<open>Modelled from the spec: the same \<open>complete\<close> operation, applied to the entry with
  the given id; it takes \<open>now\<close> from the session and leaves its call in the trace.\<close>

definition updateTemporaryCallLog ::
  "env \<Rightarrow> nat \<Rightarrow> callLogStatus \<Rightarrow> js_value \<Rightarrow> recorderApp \<Rightarrow> recorderApp" where
  "updateTemporaryCallLog e i s payload st =
     st\<lparr> callLogs := map (\<lambda>entry. if logId entry = i
                                   then completeEntry e (now st) s payload entry
                                   else entry) (callLogs st),
         trace := trace st @ [UpdateTemporaryCallLog i s payload] \<rparr>"

text \<open>Modelled from the spec: \<open>Recorder.frameForSelector\<close> (missing with class
  \<open>Recorder\<close>). The spec: "resolution is by scanning the known selector against live
  frames of the session's tracked pages; if no page is tracked, fail with "no pages
  available."" The scan itself is the environment's \<open>scanFrames\<close>.\<close>

definition frameForSelector :: "env \<Rightarrow> recorderApp \<Rightarrow> string \<Rightarrow> exn + frame" where
  "frameForSelector e st sel =
     (if pageAliases st = [] then Inl (Error ''No pages available'')
      else scanFrames e (map fst (pageAliases st)) sel)"

text \<open>\<open>pageAliases.get(page) || "page"\<close>: the alias of a page, or \<open>"page"\<close> when the
  page has none or an empty one.\<close>

definition aliasOrPage :: "(page \<times> string) list \<Rightarrow> page \<Rightarrow> string" where
  "aliasOrPage m p =
     (case map_of m p of None \<Rightarrow> ''page'' | Some a \<Rightarrow> if a \<noteq> [] then a else ''page'')"

text \<open>Time passes while an operation is awaited.\<close>

definition elapse :: "nat \<Rightarrow> recorderApp \<Rightarrow> recorderApp" where
  "elapse dt st = st\<lparr> now := now st + dt \<rparr>"

subsection \<open>Performing an action\<close>

text \<open>\<open>_buildSyntheticAction\<close>: a \<open>switch\<close> on the action name whose \<open>default\<close>
  throws. An absent name reads \<open>undefined\<close> in the message.\<close>

definition buildSyntheticAction ::
  "string \<Rightarrow> string option \<Rightarrow> js_value list \<Rightarrow> exn + action" where
  "buildSyntheticAction sel actionName' as =
     (if actionName' = Some ''click'' then
        Inr \<lparr> name = ''click'', selector = sel, signals = [],
              detail = ClickFields 0 ''left'' 1 \<rparr>
      else if actionName' = Some ''dblclick'' then
        Inr \<lparr> name = ''click'', selector = sel, signals = [],
              detail = ClickFields 0 ''left'' 2 \<rparr>
      else if actionName' = Some ''fill'' then
        Inr \<lparr> name = ''fill'', selector = sel, signals = [],
              detail = FillFields (js_or (arg0 as) (JString [])) \<rparr>
      else if actionName' = Some ''press'' then
        Inr \<lparr> name = ''press'', selector = sel, signals = [],
              detail = PressFields (js_or (arg0 as) (JString ''Enter'')) 0 \<rparr>
      else if actionName' = Some ''check'' then
        Inr \<lparr> name = ''check'', selector = sel, signals = [], detail = NoFields \<rparr>
      else if actionName' = Some ''uncheck'' then
        Inr \<lparr> name = ''uncheck'', selector = sel, signals = [], detail = NoFields \<rparr>
      else if actionName' = Some ''selectOption'' then
        Inr \<lparr> name = ''select'', selector = sel, signals = [],
              detail = SelectFields (if truthy (arg0 as) then [arg0 as] else []) \<rparr>
      else Inl (Error (''Unsupported action: '' @ interpolate actionName')))"

text \<open>\<open>_executeUIAction\<close>. The outer \<open>try\<close> only rethrows, so a throw inside it is the
  method's rejection. \<open>args\<close> defaults to the empty array.\<close>

definition executeUIAction :: "env \<Rightarrow> eventParams \<Rightarrow> recorderApp \<Rightarrow> (exn + unit) \<times> recorderApp" where
  "executeUIAction e p st =
     (case locator p of
        None \<Rightarrow> (Inl (Error ''Locator is required''), st)
      | Some loc \<Rightarrow>
          if trim loc = [] then (Inl (Error ''Locator is required''), st)
          else if pageAliases st = []
          then (Inl (Error ''No pages available for action execution''), st)
          else
            (case frameForSelector e st loc of
               Inl err \<Rightarrow> (Inl err, st)
             | Inr fr \<Rightarrow>
                 (case buildSyntheticAction loc (actionName p)
                         (case args p of None \<Rightarrow> [] | Some as \<Rightarrow> as) of
                    Inl err \<Rightarrow> (Inl err, st)
                  | Inr actionObject \<Rightarrow>
                      (let frameDescription =
                             \<lparr> pageGuid = guid (framePage fr),
                               pageAlias = aliasOrPage (pageAliases st) (framePage fr),
                               framePath = [] \<rparr>;
                           actionInContext =
                             \<lparr> frame = frameDescription, action = actionObject,
                               startTime = now st \<rparr>;
                           (callLogId, st1) = pushTemporaryCallLog actionInContext st;
                           (outcome, dt) = performAction e (pageAliases st1) actionInContext;
                           st2 = elapse dt (emit (PerformActionCall actionInContext) st1)
                       in case outcome of
                            Inr _ \<Rightarrow>
                              (Inr (), updateTemporaryCallLog e callLogId Done JUndefined st2)
                          | Inl err \<Rightarrow>
                              (Inl err,
                               updateTemporaryCallLog e callLogId ErrorStatus
                                 (JString (errorMessage err)) st2)))))"

subsection \<open>Extracting a value\<close>

text \<open>\<open>controller.run(task, timeout)\<close> around one \<open>Frame\<close> method: the environment
  performs the query on the frame under the deadline it is given.\<close>

definition controllerRun ::
  "env \<Rightarrow> frame \<Rightarrow> frameQuery \<Rightarrow> nat \<Rightarrow> recorderApp \<Rightarrow> (exn + js_value) \<times> recorderApp" where
  "controllerRun e fr q timeout st =
     (let (outcome, dt) = frameCall e fr q timeout
      in (outcome, elapse dt (emit (FrameQueryCall fr q timeout) st)))"

text \<open>\<open>_performExtraction\<close>: one \<open>controller.run(..., 5000)\<close> around a \<open>switch\<close> on the
  extraction kind; the \<open>default\<close> throws inside the task, before anything is awaited.\<close>

definition performExtraction ::
  "env \<Rightarrow> frame \<Rightarrow> string \<Rightarrow> string option \<Rightarrow> js_value list option \<Rightarrow> recorderApp
     \<Rightarrow> (exn + js_value) \<times> recorderApp" where
  "performExtraction e fr sel extraction' as st =
     (let run = (\<lambda>q. controllerRun e fr q 5000 st) in
      if extraction' = Some ''innerText'' then run (InnerText sel True)
      else if extraction' = Some ''textContent'' then run (TextContent sel True)
      else if extraction' = Some ''getAttribute'' then
        run (GetAttribute sel
               (js_or (case as of None \<Rightarrow> JUndefined | Some xs \<Rightarrow> arg0 xs) (JString [])) True)
      else if extraction' = Some ''isVisible'' then run (IsVisible sel True)
      else if extraction' = Some ''isEnabled'' then run (IsEnabled sel True)
      else if extraction' = Some ''isChecked'' then run (IsChecked sel True)
      else if extraction' = Some ''count'' then run (LocatorCount sel)
      else if extraction' = Some ''boundingBox'' then run (ElementBoundingBox sel True)
      else (Inl (Error (''Unsupported extraction: '' @ interpolate extraction')), st))"

text \<open>\<open>_sendExtractionResultToUI\<close>: a call into the control surface whose failure is
  swallowed by its own \<open>catch\<close>.\<close>

definition sendExtractionResultToUI :: "js_value \<Rightarrow> string \<Rightarrow> recorderApp \<Rightarrow> recorderApp" where
  "sendExtractionResultToUI result kind st =
     emit (ExtractionResult result kind) st"

text \<open>\<open>_executeUIExtraction\<close>.\<close>

definition executeUIExtraction ::
  "env \<Rightarrow> eventParams \<Rightarrow> recorderApp \<Rightarrow> (exn + unit) \<times> recorderApp" where
  "executeUIExtraction e p st =
     (case locator p of
        None \<Rightarrow> (Inl (Error ''Locator is required''), st)
      | Some loc \<Rightarrow>
          if trim loc = [] then (Inl (Error ''Locator is required''), st)
          else
            (case frameForSelector e st loc of
               Inl err \<Rightarrow> (Inl err, st)
             | Inr fr \<Rightarrow>
                 (let as = (case args p of None \<Rightarrow> [] | Some xs \<Rightarrow> xs);
                      frameDescription =
                        \<lparr> pageGuid = guid (framePage fr), pageAlias = ''page'',
                          framePath = [] \<rparr>;
                      (callLogId, st1) =
                        pushTemporaryCallLog
                          \<lparr> frame = frameDescription,
                            action = \<lparr> name = ''extract_'' @ interpolate (extraction p),
                                       selector = loc, signals = [],
                                       detail = ArgsFields as \<rparr>,
                            startTime = now st \<rparr> st;
                      (outcome, st2) = performExtraction e fr loc (extraction p) (Some as) st1
                  in case outcome of
                       Inr result \<Rightarrow>
                         (Inr (),
                          sendExtractionResultToUI result (interpolate (extraction p))
                            (updateTemporaryCallLog e callLogId Done result st2))
                     | Inl err \<Rightarrow>
                         (Inl err,
                          updateTemporaryCallLog e callLogId ErrorStatus
                            (JString (errorMessage err)) st2))))"

subsection \<open>Executing an expression\<close>

text \<open>The tail \<open>\s*\(\s*\)?\s*$\<close> of both regular expressions of
  \<open>_isExtractionCommand\<close>, read from the end of the text: given the reversed text, the
  reversed part before the tail, or \<open>None\<close> when the text has no such tail.\<close>

definition stripCallTail :: "string \<Rightarrow> string option" where
  "stripCallTail r =
     (let r1 = dropWhile isWhiteSpace r;
          r2 = (case r1 of [] \<Rightarrow> r1 | c # cs \<Rightarrow> if c = CHR 0x29 then cs else r1);
          r3 = dropWhile isWhiteSpace r2
      in case r3 of
           [] \<Rightarrow> None
         | c # cs \<Rightarrow> if c = CHR 0x28 then Some (dropWhile isWhiteSpace cs) else None)"

text \<open>\<open>_isExtractionCommand\<close>: the trimmed code ends in a call of one of eight locator
  methods, or is a call of \<open>page.title\<close> or \<open>page.url\<close>.\<close>

definition isExtractionCommand :: "string \<Rightarrow> bool" where
  "isExtractionCommand c =
     (case stripCallTail (rev (trim c)) of
        None \<Rightarrow> False
      | Some r \<Rightarrow>
          list_ex (\<lambda>m. take (Suc (length m)) r = rev (CHR 0x2E # m))
            [''innerText'', ''textContent'', ''isVisible'', ''isEnabled'', ''isChecked'',
             ''getAttribute'', ''count'', ''boundingBox'']
          \<or> list_ex (\<lambda>m. r = rev (''page.'' @ m)) [''title'', ''url''])"

text \<open>\<open>_executePlaywrightCode\<close>: the expression is compiled with \<open>new Function\<close> and run
  against a wrapper of the page; that evaluation is the environment's \<open>evalCode\<close>. Any
  failure is wrapped in a new \<open>Error\<close>.\<close>

definition executePlaywrightCode ::
  "env \<Rightarrow> page \<Rightarrow> string \<Rightarrow> recorderApp \<Rightarrow> (exn + js_value) \<times> recorderApp" where
  "executePlaywrightCode e pg c st =
     (let (outcome, dt) = evalCode e pg c;
          st1 = elapse dt (emit (EvalCodeCall pg c) st)
      in case outcome of
           Inr result \<Rightarrow> (Inr result, st1)
         | Inl err \<Rightarrow>
             (Inl (Error (''Failed to execute code '' @ [CHR 0x22] @ c @ [CHR 0x22] @ '': ''
                          @ errorMessage err)), st1))"

text \<open>\<open>_executeArbitraryCode\<close>. \<open>Array.from(pageAliases.keys())[0]\<close> is the first key in
  insertion order.\<close>

definition executeArbitraryCode ::
  "env \<Rightarrow> eventParams \<Rightarrow> recorderApp \<Rightarrow> (exn + unit) \<times> recorderApp" where
  "executeArbitraryCode e p st =
     (case code p of
        None \<Rightarrow> (Inl (Error ''Code is required''), st)
      | Some c \<Rightarrow>
          if trim c = [] then (Inl (Error ''Code is required''), st)
          else
            (case pageAliases st of
               [] \<Rightarrow> (Inl (Error ''No pages available for code execution''), st)
             | (pg, _) # _ \<Rightarrow>
                 (let frameDescription =
                        \<lparr> pageGuid = guid pg,
                          pageAlias = aliasOrPage (pageAliases st) pg,
                          framePath = [] \<rparr>;
                      (callLogId, st1) =
                        pushTemporaryCallLog
                          \<lparr> frame = frameDescription,
                            action = \<lparr> name = ''execute_code'', selector = [], signals = [],
                                       detail = ArgsFields [JString c] \<rparr>,
                            startTime = now st \<rparr> st;
                      (outcome, st2) = executePlaywrightCode e pg c st1
                  in case outcome of
                       Inr result \<Rightarrow>
                         (let st3 = updateTemporaryCallLog e callLogId Done result st2
                          in (Inr (),
                              if result \<noteq> JUndefined
                              then sendExtractionResultToUI result
                                     (if isExtractionCommand c then ''extraction'' else ''action'')
                                     st3
                              else st3))
                     | Inl err \<Rightarrow>
                         (Inl err,
                          updateTemporaryCallLog e callLogId ErrorStatus
                            (JString (errorMessage err)) st2))))"

subsection \<open>Regenerating the sources\<close>

text \<open>\<open>_pushAllSources\<close> and \<open>_revealSource\<close>: calls into the control surface whose
  failures are swallowed. \<open>_revealSource\<close> returns at once on an absent or empty id.\<close>

definition pushAllSources :: "recorderApp \<Rightarrow> recorderApp" where
  "pushAllSources st =
     emit (SetSources (userSources st @ recorderSources st)) st"

definition revealSource :: "string option \<Rightarrow> recorderApp \<Rightarrow> recorderApp" where
  "revealSource sid st =
     (case sid of
        None \<Rightarrow> st
      | Some i \<Rightarrow> if i = [] then st else emit (SelectSource i) st)"

text \<open>\<open>this._throttledOutputFile?.setContent(text)\<close>.\<close>

definition setContent :: "string \<Rightarrow> recorderApp \<Rightarrow> recorderApp" where
  "setContent t st =
     (case throttledOutputFile st of
        None \<Rightarrow> st
      | Some _ \<Rightarrow> st\<lparr> throttledOutputFile := Some (Some t) \<rparr>)"

text \<open>The \<open>for\<close> loop of \<open>_updateActions\<close> over \<open>languageSet()\<close>, with its two local
  variables \<open>recorderSources\<close> and \<open>revealSourceId\<close> as accumulators. A generator that
  throws ends the loop with its exception: nothing in the loop catches.
  \<open>text.split("\n").length - 1\<close> is the number of line feeds of the text.\<close>

fun updateActionsLoop ::
  "env \<Rightarrow> actionInContext list \<Rightarrow> bool \<Rightarrow> languageGenerator list \<Rightarrow> source list \<Rightarrow> string option
     \<Rightarrow> recorderApp \<Rightarrow> (exn + source list \<times> string option) \<times> recorderApp" where
  "updateActionsLoop e acts rev' [] srcs revealSourceId st = (Inr (srcs, revealSourceId), st)"
| "updateActionsLoop e acts rev' (g # gs) srcs revealSourceId st =
     (case generateCode e acts g (generatorOptions st) of
        Inl err \<Rightarrow> (Inl err, st)
      | Inr c \<Rightarrow>
          (let src = \<lparr> isRecorded = True, sourceId = generatorId g, label = generatorName g,
                       sourceText = genText c, language = highlighter g, highlight = [],
                       revealLine = Some (length (filter (\<lambda>ch. ch = CHR 0x0A) (genText c))),
                       group = Some (groupName g), header = Some (genHeader c),
                       footer = Some (genFooter c),
                       sourceActions = Some (genActionTexts c) \<rparr>;
               st1 = (if generatorId g = primaryGeneratorId st
                      then setContent (sourceText src) st else st);
               revealSourceId1 = (if rev' \<and> sourceId src = selectedGeneratorId st
                                  then Some (sourceId src) else revealSourceId)
           in updateActionsLoop e acts rev' gs (srcs @ [src]) revealSourceId1 st1))"

text \<open>\<open>_updateActions(reveal?)\<close>; the flag is true for the argument \<open>"reveal"\<close>.\<close>

definition updateActions :: "env \<Rightarrow> bool \<Rightarrow> recorderApp \<Rightarrow> (exn + unit) \<times> recorderApp" where
  "updateActions e rev' st =
     (case updateActionsLoop e (collapseActions e (actions st)) rev' (languageSet e) [] None st of
        (Inl err, st1) \<Rightarrow> (Inl err, st1)
      | (Inr (srcs, revealSourceId), st1) \<Rightarrow>
          (Inr (), revealSource revealSourceId (pushAllSources (st1\<lparr> recorderSources := srcs \<rparr>))))"

subsection \<open>Recorded actions and signals\<close>

text \<open>\<open>Array.prototype.findLast\<close>, as the index of the element it returns: the array is
  searched from its end.\<close>

fun findLastIndex :: "('a \<Rightarrow> bool) \<Rightarrow> 'a list \<Rightarrow> nat option" where
  "findLastIndex P [] = None"
| "findLastIndex P (x # xs) =
     (case findLastIndex P xs of
        Some i \<Rightarrow> Some (Suc i)
      | None \<Rightarrow> if P x then Some 0 else None)"

text \<open>\<open>_onActionAdded\<close>.\<close>

definition onActionAdded :: "env \<Rightarrow> actionInContext \<Rightarrow> recorderApp \<Rightarrow> (exn + unit) \<times> recorderApp" where
  "onActionAdded e a st = updateActions e True (st\<lparr> actions := actions st @ [a] \<rparr>)"

text \<open>A signal with the frame it arrived in (\<open>SignalInContext\<close>).\<close>

record signalInContext =
  signalFrame :: frameDescription
  signal :: signal

text \<open>\<open>_onSignalAdded\<close>: \<open>lastAction.action.signals.push(signal.signal)\<close> writes into
  the element of \<open>_actions\<close> that \<open>findLast\<close> returned; the elements of \<open>_actions\<close> are
  distinct objects, so no other element changes.\<close>

definition onSignalAdded :: "env \<Rightarrow> signalInContext \<Rightarrow> recorderApp \<Rightarrow> (exn + unit) \<times> recorderApp" where
  "onSignalAdded e sg st =
     updateActions e False
       (case findLastIndex (\<lambda>a. pageGuid (frame a) = pageGuid (signalFrame sg)) (actions st) of
          None \<Rightarrow> st
        | Some i \<Rightarrow>
            (let lastAction = actions st ! i
             in st\<lparr> actions := (actions st)
                       [i := lastAction\<lparr> action := (action lastAction)
                              \<lparr> signals := signals (action lastAction) @ [signal sg] \<rparr> \<rparr>] \<rparr>))"

subsection \<open>Dispatch of inbound events\<close>

text \<open>\<open>void promise\<close>: the promise is dropped, so a rejection of it has no handler and
  the runtime reports it to the process as an unhandled rejection.\<close>

definition voidPromise :: "(exn + unit) \<times> recorderApp \<Rightarrow> recorderApp" where
  "voidPromise r =
     (case r of
        (Inr _, st) \<Rightarrow> st
      | (Inl err, st) \<Rightarrow> emit (UnhandledRejection err) st)"

text \<open>\<open>promise.catch(err => console.error(label, err))\<close>: a rejection is printed and goes
  no further.\<close>

definition catchAndLog :: "string \<Rightarrow> (exn + unit) \<times> recorderApp \<Rightarrow> recorderApp" where
  "catchAndLog lbl r =
     (case r of
        (Inr _, st) \<Rightarrow> st
      | (Inl err, st) \<Rightarrow> emit (ConsoleError lbl err) st)"

text \<open>\<open>_handleUIEvent\<close>: a chain of \<open>if (data.event === ...)\<close> that ends in a
  \<open>throw\<close>. The outcome is the synchronous one: \<open>Inl\<close> is an exception thrown out of the
  dispatch itself. A string is truthy when it is present and not empty.\<close>

definition handleUIEvent :: "env \<Rightarrow> eventData \<Rightarrow> recorderApp \<Rightarrow> (exn + unit) \<times> recorderApp" where
  "handleUIEvent e d st =
     (let p = params d in
      if event d = ''clear'' then
        (case updateActions e True (st\<lparr> actions := [] \<rparr>) of
           (Inl err, st1) \<Rightarrow> (Inl err, st1)
         | (Inr _, st1) \<Rightarrow> (Inr (), emit RecorderClear st1))
      else if event d = ''fileChanged'' then
        (case find (\<lambda>s. Some (sourceId s) = fileId p) (recorderSources st @ userSources st) of
           None \<Rightarrow> (Inr (), st)
         | Some src \<Rightarrow>
             (Inr (),
              emit (SetLanguage (language src))
                (if isRecorded src then st\<lparr> selectedGeneratorId := sourceId src \<rparr> else st)))
      else if event d = ''setAutoExpect'' then
        updateActions e False
          (st\<lparr> generatorOptions := (generatorOptions st)\<lparr> generateAutoExpect := autoExpect p \<rparr> \<rparr>)
      else if event d = ''setMode'' then (Inr (), emit (SetMode (mode p)) st)
      else if event d = ''resume'' then (Inr (), emit Resume st)
      else if event d = ''pause'' then (Inr (), emit Pause st)
      else if event d = ''step'' then (Inr (), emit Step st)
      else if event d = ''highlightRequested'' then
        (let st1 = (case highlightSelector p of
                      None \<Rightarrow> st
                    | Some s \<Rightarrow> if s \<noteq> [] then emit (SetHighlightedSelector s) st else st);
             st2 = (case ariaTemplate p of
                      None \<Rightarrow> st1
                    | Some t \<Rightarrow>
                        if t \<noteq> [] then emit (SetHighlightedAriaTemplate t) st1 else st1)
         in (Inr (), st2))
      else if event d = ''performAction'' then
        (Inr (), voidPromise (executeUIAction e p st))
      else if event d = ''performExtraction'' then
        (Inr (), voidPromise (executeUIExtraction e p st))
      else if event d = ''executeArbitraryCode'' then
        (Inr (), catchAndLog ''Failed to execute arbitrary code:'' (executeArbitraryCode e p st))
      else (Inl (Error (''Unknown event: '' @ event d)), st))"

subsection \<open>Reading the trace\<close>

text \<open>The pages against which expressions were evaluated, in order.\<close>

fun evalTargets :: "effect list \<Rightarrow> page list" where
  "evalTargets [] = []"
| "evalTargets (EvalCodeCall pg c # xs) = pg # evalTargets xs"
| "evalTargets (_ # xs) = evalTargets xs"










text \<open>A sequence of inbound events, dispatched one after the other. An event whose
  dispatch throws leaves the session as the throw left it, and the next event is
  dispatched all the same.\<close>

fun dispatchAll :: "env \<Rightarrow> eventData list \<Rightarrow> recorderApp \<Rightarrow> recorderApp" where
  "dispatchAll e [] st = st"
| "dispatchAll e (d # ds) st = dispatchAll e ds (snd (handleUIEvent e d st))"




subsection \<open>Sample sessions\<close>

text \<open>A concrete environment and concrete sessions, on which the theorems below are
  instantiated.\<close>

definition page1 :: page where "page1 = \<lparr> guid = ''page@1'' \<rparr>"
definition page2 :: page where "page2 = \<lparr> guid = ''page@2'' \<rparr>"

definition jsGenerator :: languageGenerator where
  "jsGenerator = \<lparr> generatorId = ''javascript'', groupName = ''Node.js'',
                   generatorName = ''Library'', highlighter = ''javascript'' \<rparr>"

definition pyGenerator :: languageGenerator where
  "pyGenerator = \<lparr> generatorId = ''python'', groupName = ''Python'',
                   generatorName = ''Library'', highlighter = ''python'' \<rparr>"

definition demoEnv :: env where
  "demoEnv =
     \<lparr> languageSet = [jsGenerator, pyGenerator],
       collapseActions = (\<lambda>as. as),
       generateCode = (\<lambda>acts g opts.
          Inr \<lparr> genHeader = ''begin'', genFooter = ''end'',
                genActionTexts = map (\<lambda>a. name (action a)) acts,
                genText = ''begin'' @ [CHR 0x0A] @ ''end'' \<rparr>),
       performAction = (\<lambda>aliases a.
          if selector (action a) = ''#missing'' then (Inl (Error ''Timeout 5000ms exceeded''), 5000)
          else (Inr (), 12)),
       frameCall = (\<lambda>fr q t.
          case q of
            InnerText sel _ \<Rightarrow>
              if sel = ''#missing'' then (Inl (Error ''Timeout 5000ms exceeded''), t)
              else (Inr (JString ''Hello''), 3)
          | _ \<Rightarrow> (Inr (JBool True), 3)),
       evalCode = (\<lambda>pg c.
          if c = ''boom()'' then (Inl (NonError ''boom''), 1) else (Inr (JString (guid pg)), 2)),
       scanFrames = (\<lambda>ps sel.
          case ps of [] \<Rightarrow> Inl (Error ''No frame'') | pg # _ \<Rightarrow> Inr \<lparr> framePage = pg, frameName = ''main'' \<rparr>),
       display = (\<lambda>v. case v of JString s \<Rightarrow> s | _ \<Rightarrow> ''[value]'') \<rparr>"

definition emptySession :: recorderApp where
  "emptySession =
     \<lparr> pageAliases = [], callLogs = [], nextCallLogId = 0, actions = [], userSources = [],
       recorderSources = [], primaryGeneratorId = ''javascript'',
       selectedGeneratorId = ''javascript'',
       generatorOptions = \<lparr> browserName = ''chromium'', deviceName = None, saveStorage = None,
                            generateAutoExpect = None \<rparr>,
       throttledOutputFile = None, trace = [], now = 1000 \<rparr>"

definition twoPageSession :: recorderApp where
  "twoPageSession = emptySession\<lparr> pageAliases := [(page2, ''page''), (page1, ''page1'')] \<rparr>"

definition noParams :: eventParams where
  "noParams = \<lparr> fileId = None, autoExpect = None, mode = None, highlightSelector = None,
                ariaTemplate = None, locator = None, actionName = None, extraction = None,
                args = None, code = None \<rparr>"

text \<open>An environment whose first generator throws.\<close>

definition brokenEnv :: env where
  "brokenEnv =
     demoEnv\<lparr> generateCode := (\<lambda>acts g opts.
        if generatorId g = ''javascript'' then Inl (Error ''generator failed'')
        else generateCode demoEnv acts g opts) \<rparr>"

text \<open>Three recorded actions: a click on page 1, a fill on page 2, a press on page 1.\<close>

definition recorded :: "string \<Rightarrow> action \<Rightarrow> nat \<Rightarrow> actionInContext" where
  "recorded g a t =
     \<lparr> frame = \<lparr> pageGuid = g, pageAlias = ''page'', framePath = [] \<rparr>, action = a,
       startTime = t \<rparr>"

definition clickA :: actionInContext where
  "clickA = recorded ''page@1''
     \<lparr> name = ''click'', selector = ''#a'', signals = [], detail = ClickFields 0 ''left'' 1 \<rparr> 10"

definition fillB :: actionInContext where
  "fillB = recorded ''page@2''
     \<lparr> name = ''fill'', selector = ''#b'', signals = [Signal ''popup''],
       detail = FillFields (JString ''x'') \<rparr> 20"

definition pressC :: actionInContext where
  "pressC = recorded ''page@1''
     \<lparr> name = ''press'', selector = ''#c'', signals = [],
       detail = PressFields (JString ''Enter'') 0 \<rparr> 30"

definition recordedSession :: recorderApp where
  "recordedSession = twoPageSession\<lparr> actions := [clickA, fillB, pressC] \<rparr>"

text \<open>A request that carries a locator, an action, an extraction and a code, and the three
  records the executor builds for it in \<open>twoPageSession\<close>.\<close>

definition sampleParams :: eventParams where
  "sampleParams =
     noParams\<lparr> locator := Some ''#submit'', actionName := Some ''click'',
                extraction := Some ''innerText'', code := Some ''boom()'' \<rparr>"




text \<open>The recorded session with \<open>python\<close> as primary generator and an output file that
  has no content yet.\<close>

definition fileSession :: recorderApp where
  "fileSession = recordedSession\<lparr> primaryGeneratorId := ''python'', throttledOutputFile := Some None \<rparr>"



section \<open>Properties\<close>

subsection \<open>Validation\<close>

lemma trim_Nil_iff: "trim s = [] \<longleftrightarrow> (\<forall>c\<in>set s. isWhiteSpace c)"
proof
  assume t: "trim s = []"
  then have "\<forall>c\<in>set (dropWhile isWhiteSpace s). isWhiteSpace c"
    by (simp add: trim_def dropWhile_eq_Nil_conv)
  then have "dropWhile isWhiteSpace s = []"
    using hd_dropWhile[of isWhiteSpace s] by (cases "dropWhile isWhiteSpace s") auto
  then show "\<forall>c\<in>set s. isWhiteSpace c" by (simp add: dropWhile_eq_Nil_conv)
next
  assume "\<forall>c\<in>set s. isWhiteSpace c"
  then have d: "dropWhile isWhiteSpace s = []" by (simp add: dropWhile_eq_Nil_conv)
  show "trim s = []" unfolding trim_def d by simp
qed

lemma notTrimmed_iff:
  "notTrimmed s \<longleftrightarrow> (s = None \<or> (\<exists>t. s = Some t \<and> (\<forall>c\<in>set t. isWhiteSpace c)))"
  by (cases s) (simp_all add: notTrimmed_def trim_Nil_iff)

lemma executeUIAction_blank:
  "notTrimmed (locator p) \<Longrightarrow> executeUIAction e p st = (Inl (Error ''Locator is required''), st)"
  by (auto simp: executeUIAction_def notTrimmed_def split: option.splits)

lemma executeUIExtraction_blank:
  "notTrimmed (locator p) \<Longrightarrow> executeUIExtraction e p st = (Inl (Error ''Locator is required''), st)"
  by (auto simp: executeUIExtraction_def notTrimmed_def split: option.splits)

lemma executeArbitraryCode_blank:
  "notTrimmed (code p) \<Longrightarrow> executeArbitraryCode e p st = (Inl (Error ''Code is required''), st)"
  by (auto simp: executeArbitraryCode_def notTrimmed_def split: option.splits)

text \<open>C4. A \<open>performAction\<close> or \<open>performExtraction\<close> request whose locator is absent or
  only white space, and an \<open>executeArbitraryCode\<close> request whose code is absent or only
  white space, is rejected with a validation error (\<open>Locator is required\<close>,
  \<open>Code is required\<close>) whatever the environment answers, and the session is left as it
  was: no call-log entry, no effect.\<close>

theorem validation_failure_leaves_no_call_log:
  "((locator p = None \<or> (\<exists>s. locator p = Some s \<and> (\<forall>c\<in>set s. isWhiteSpace c))) \<longrightarrow>
      executeUIAction e p st = (Inl (Error ''Locator is required''), st) \<and>
      executeUIExtraction e p st = (Inl (Error ''Locator is required''), st)) \<and>
   ((code p = None \<or> (\<exists>s. code p = Some s \<and> (\<forall>c\<in>set s. isWhiteSpace c))) \<longrightarrow>
      executeArbitraryCode e p st = (Inl (Error ''Code is required''), st))"
  using executeUIAction_blank[of p e st] executeUIExtraction_blank[of p e st]
    executeArbitraryCode_blank[of p e st]
  by (simp add: notTrimmed_iff)

theorem validation_failure_leaves_no_call_log_witness:
  "executeUIAction demoEnv (noParams\<lparr> locator := Some '' '', actionName := Some ''click'' \<rparr>) twoPageSession
     = (Inl (Error ''Locator is required''), twoPageSession) \<and>
   executeUIExtraction demoEnv (noParams\<lparr> locator := Some '' '', actionName := Some ''click'' \<rparr>) twoPageSession
     = (Inl (Error ''Locator is required''), twoPageSession) \<and>
   executeArbitraryCode demoEnv (noParams\<lparr> locator := Some '' '', actionName := Some ''click'' \<rparr>) twoPageSession
     = (Inl (Error ''Code is required''), twoPageSession)"
  using validation_failure_leaves_no_call_log
          [of "noParams\<lparr> locator := Some '' '', actionName := Some ''click'' \<rparr>" demoEnv twoPageSession]
  by (simp add: noParams_def isWhiteSpace_def)

subsection \<open>Unsupported action kinds\<close>

lemma buildSyntheticAction_unsupported:
  "k \<notin> Some ` {''click'', ''dblclick'', ''fill'', ''press'', ''check'', ''uncheck'', ''selectOption''} \<Longrightarrow>
   buildSyntheticAction sel k as = Inl (Error (''Unsupported action: '' @ interpolate k))"
  by (simp add: buildSyntheticAction_def)

text \<open>C10. For an action kind outside \<open>click\<close>, \<open>dblclick\<close>, \<open>fill\<close>, \<open>press\<close>,
  \<open>check\<close>, \<open>uncheck\<close>, \<open>selectOption\<close> (so also for \<open>hover\<close> and \<open>scroll\<close>, which
  the type \<open>PerformActionParams\<close> admits), building the synthetic action throws
  \<open>Unsupported action: <kind>\<close>; a \<open>performAction\<close> command of such a kind always fails
  and leaves the session as it was, so no call-log entry is created for it; and when its
  locator is not blank and its frame was resolved, the failure of the command is that
  error.\<close>

theorem unsupported_action_rejected:
  "k \<notin> Some ` {''click'', ''dblclick'', ''fill'', ''press'', ''check'', ''uncheck'', ''selectOption''} \<Longrightarrow>
     buildSyntheticAction sel k as = Inl (Error (''Unsupported action: '' @ interpolate k)) \<and>
     (actionName p = k \<longrightarrow> (\<exists>err. executeUIAction e p st = (Inl err, st))) \<and>
     (actionName p = k \<and> locator p = Some loc \<and> trim loc \<noteq> [] \<and> pageAliases st \<noteq> [] \<and>
      frameForSelector e st loc = Inr fr \<longrightarrow>
        executeUIAction e p st = (Inl (Error (''Unsupported action: '' @ interpolate k)), st))"
proof (intro conjI impI)
  assume k: "k \<notin> Some ` {''click'', ''dblclick'', ''fill'', ''press'', ''check'', ''uncheck'', ''selectOption''}"
  then show "buildSyntheticAction sel k as = Inl (Error (''Unsupported action: '' @ interpolate k))"
    by (rule buildSyntheticAction_unsupported)
  have b: "\<And>loc xs. buildSyntheticAction loc k xs = Inl (Error (''Unsupported action: '' @ interpolate k))"
    using k by (rule buildSyntheticAction_unsupported)
  {
    assume "actionName p = k"
    then show "\<exists>err. executeUIAction e p st = (Inl err, st)"
      by (auto simp: executeUIAction_def b split: option.splits sum.splits)
  }
  {
    assume "actionName p = k \<and> locator p = Some loc \<and> trim loc \<noteq> [] \<and> pageAliases st \<noteq> [] \<and>
      frameForSelector e st loc = Inr fr"
    then show "executeUIAction e p st = (Inl (Error (''Unsupported action: '' @ interpolate k)), st)"
      by (auto simp: executeUIAction_def b split: option.splits sum.splits)
  }
qed

theorem unsupported_action_rejected_witness:
  "buildSyntheticAction ''#submit'' (Some ''hover'') [] = Inl (Error ''Unsupported action: hover'') \<and>
   executeUIAction demoEnv (noParams\<lparr> locator := Some ''#submit'', actionName := Some ''hover'' \<rparr>)
     twoPageSession = (Inl (Error ''Unsupported action: hover''), twoPageSession)"
  using unsupported_action_rejected
          [of "Some ''hover''" "''#submit''" "[]"
              "noParams\<lparr> locator := Some ''#submit'', actionName := Some ''hover'' \<rparr>"
              demoEnv twoPageSession "''#submit''" "\<lparr> framePage = page2, frameName = ''main'' \<rparr>"]
  by (simp add: noParams_def interpolate_def trim_def isWhiteSpace_def twoPageSession_def
        emptySession_def frameForSelector_def demoEnv_def)

subsection \<open>Unknown events\<close>

text \<open>An event whose tag is none of the eleven recognised kinds makes \<open>_handleUIEvent\<close>
  throw \<open>Unknown event: <tag>\<close> out of the dispatch itself, with the session untouched,
  while the dispatch of \<open>performAction\<close>, \<open>performExtraction\<close> or
  \<open>executeArbitraryCode\<close> never throws, whatever becomes of the command.\<close>

theorem unknown_event_throws:
  "event d \<notin> {''clear'', ''fileChanged'', ''setAutoExpect'', ''setMode'', ''resume'', ''pause'',
               ''step'', ''highlightRequested'', ''performAction'', ''performExtraction'',
               ''executeArbitraryCode''} \<Longrightarrow>
   handleUIEvent e d st = (Inl (Error (''Unknown event: '' @ event d)), st) \<and>
   (\<forall>d'. event d' \<in> {''performAction'', ''performExtraction'', ''executeArbitraryCode''} \<longrightarrow>
      fst (handleUIEvent e d' st) = Inr ())"
  by (auto simp: handleUIEvent_def Let_def)

theorem unknown_event_throws_witness:
  "handleUIEvent demoEnv \<lparr> event = ''languageChanged'', params = noParams \<rparr> twoPageSession
     = (Inl (Error ''Unknown event: languageChanged''), twoPageSession) \<and>
   fst (handleUIEvent demoEnv \<lparr> event = ''performAction'', params = noParams \<rparr> twoPageSession) = Inr ()"
  using unknown_event_throws
          [of "\<lparr> event = ''languageChanged'', params = noParams \<rparr>" demoEnv twoPageSession]
  by simp

subsection \<open>No tracked page\<close>

text \<open>Validation comes first: with no page tracked, a command whose locator is blank is
  rejected with \<open>Locator is required\<close> before the pages are looked at.\<close>

lemma blank_locator_is_rejected_first:
  "pageAliases emptySession = [] \<and>
   executeUIAction demoEnv (noParams\<lparr> locator := Some [], actionName := Some ''click'' \<rparr>) emptySession
     = (Inl (Error ''Locator is required''), emptySession) \<and>
   executeUIExtraction demoEnv (noParams\<lparr> locator := Some [], extraction := Some ''innerText'' \<rparr>) emptySession
     = (Inl (Error ''Locator is required''), emptySession)"
  by (simp add: executeUIAction_def executeUIExtraction_def noParams_def emptySession_def trim_def)

text \<open>C6. With no page tracked, a \<open>performAction\<close> command that has passed validation
  fails with \<open>No pages available for action execution\<close>, thrown by the executor itself,
  and a \<open>performExtraction\<close> command that has passed validation fails in the frame
  resolution of the recorder with its "no pages available" error; either leaves the
  session as it was, so no call-log entry is created. For \<open>performExtraction\<close> the
  executor has no page check of its own: it asks the recorder for the frame before it
  pushes the entry and rethrows whatever the resolution fails with, leaving the session as
  it was; that the resolution fails with "no pages available" when no page is tracked is
  what the spec says of \<open>frameForSelector\<close>.\<close>

theorem no_pages_fails_before_call_log:
  "pageAliases st = [] \<Longrightarrow> locator p = Some loc \<Longrightarrow> trim loc \<noteq> [] \<Longrightarrow>
     executeUIAction e p st = (Inl (Error ''No pages available for action execution''), st) \<and>
     frameForSelector e st loc = Inl (Error ''No pages available'') \<and>
     executeUIExtraction e p st = (Inl (Error ''No pages available''), st) \<and>
     (\<forall>e' st' err. frameForSelector e' st' loc = Inl err \<longrightarrow>
        executeUIExtraction e' p st' = (Inl err, st'))"
  by (simp add: executeUIAction_def executeUIExtraction_def frameForSelector_def)

theorem no_pages_fails_before_call_log_witness:
  "executeUIAction demoEnv (noParams\<lparr> locator := Some ''#title'', extraction := Some ''innerText'' \<rparr>) emptySession
     = (Inl (Error ''No pages available for action execution''), emptySession) \<and>
   executeUIExtraction demoEnv (noParams\<lparr> locator := Some ''#title'', extraction := Some ''innerText'' \<rparr>) emptySession
     = (Inl (Error ''No pages available''), emptySession)"
  using no_pages_fails_before_call_log
          [of emptySession "noParams\<lparr> locator := Some ''#title'', extraction := Some ''innerText'' \<rparr>"
              "''#title''" demoEnv]
  by (simp add: noParams_def emptySession_def trim_def isWhiteSpace_def)

subsection \<open>Failures at the dispatch boundary\<close>

lemma handleUIEvent_performAction:
  "handleUIEvent e \<lparr> event = ''performAction'', params = p \<rparr> st
     = (Inr (), voidPromise (executeUIAction e p st))"
  by (simp add: handleUIEvent_def)

lemma handleUIEvent_performExtraction:
  "handleUIEvent e \<lparr> event = ''performExtraction'', params = p \<rparr> st
     = (Inr (), voidPromise (executeUIExtraction e p st))"
  by (simp add: handleUIEvent_def)

lemma handleUIEvent_executeArbitraryCode:
  "handleUIEvent e \<lparr> event = ''executeArbitraryCode'', params = p \<rparr> st
     = (Inr (), catchAndLog ''Failed to execute arbitrary code:'' (executeArbitraryCode e p st))"
  by (simp add: handleUIEvent_def)

text \<open>Whatever makes a \<open>performAction\<close> or \<open>performExtraction\<close> command fail, the
  dispatch returns normally and the failure is left as an unhandled rejection; a failure
  of \<open>executeArbitraryCode\<close> is printed instead.\<close>

lemma failed_action_is_unhandled:
  "executeUIAction e p st = (Inl err, st1) \<Longrightarrow>
     handleUIEvent e \<lparr> event = ''performAction'', params = p \<rparr> st
       = (Inr (), emit (UnhandledRejection err) st1)"
  by (simp add: handleUIEvent_performAction voidPromise_def)

lemma failed_extraction_is_unhandled:
  "executeUIExtraction e p st = (Inl err, st1) \<Longrightarrow>
     handleUIEvent e \<lparr> event = ''performExtraction'', params = p \<rparr> st
       = (Inr (), emit (UnhandledRejection err) st1)"
  by (simp add: handleUIEvent_performExtraction voidPromise_def)

lemma failed_code_is_logged:
  "executeArbitraryCode e p st = (Inl err, st1) \<Longrightarrow>
     handleUIEvent e \<lparr> event = ''executeArbitraryCode'', params = p \<rparr> st
       = (Inr (), emit (ConsoleError ''Failed to execute arbitrary code:'' err) st1)"
  by (simp add: handleUIEvent_executeArbitraryCode catchAndLog_def)

text \<open>C1 does not hold of \<open>performAction\<close> and \<open>performExtraction\<close>: \<open>_handleUIEvent\<close> drops
  their promise with \<open>void\<close>, so the failure of the command is caught and logged by
  nobody and reaches the process as an unhandled rejection. Here the command
  \<open>{locator: '', action: 'click'}\<close> fails its validation.\<close>

theorem performAction_failure_is_unhandled:
  "handleUIEvent demoEnv
     \<lparr> event = ''performAction'',
       params = noParams\<lparr> locator := Some [], actionName := Some ''click'' \<rparr> \<rparr> twoPageSession
   = (Inr (), twoPageSession\<lparr> trace := [UnhandledRejection (Error ''Locator is required'')] \<rparr>)"
  by (simp add: handleUIEvent_performAction executeUIAction_def noParams_def trim_def
        voidPromise_def emit_def twoPageSession_def emptySession_def)

text \<open>The same for \<open>performExtraction\<close>; \<open>executeArbitraryCode\<close>, whose promise has a
  \<open>catch\<close>, prints the failure and contains it.\<close>

lemma performExtraction_failure_is_unhandled:
  "handleUIEvent demoEnv
     \<lparr> event = ''performExtraction'',
       params = noParams\<lparr> locator := Some [], extraction := Some ''innerText'' \<rparr> \<rparr> twoPageSession
   = (Inr (), twoPageSession\<lparr> trace := [UnhandledRejection (Error ''Locator is required'')] \<rparr>)"
  by (simp add: handleUIEvent_performExtraction executeUIExtraction_def noParams_def trim_def
        voidPromise_def emit_def twoPageSession_def emptySession_def)

lemma executeArbitraryCode_failure_is_logged:
  "handleUIEvent demoEnv
     \<lparr> event = ''executeArbitraryCode'', params = noParams\<lparr> code := Some [] \<rparr> \<rparr> twoPageSession
   = (Inr (), twoPageSession\<lparr> trace :=
        [ConsoleError ''Failed to execute arbitrary code:'' (Error ''Code is required'')] \<rparr>)"
  by (simp add: handleUIEvent_executeArbitraryCode executeArbitraryCode_def noParams_def trim_def
        catchAndLog_def emit_def twoPageSession_def emptySession_def)

text \<open>C3 holds in its first half only. An event of an unrecognised kind does make
  \<open>_handleUIEvent\<close> throw \<open>Unknown event: <tag>\<close> synchronously, and the dispatch of a
  command never throws, so the two kinds of failure cannot be mistaken for one another.
  But the failures of commands are not contained, as the claim has it: a
  \<open>performExtraction\<close> whose query times out is set to \<open>error\<close> in the call log and then
  leaves the dispatch as an unhandled rejection, for the reason given for C1.\<close>

theorem unknown_event_thrown_command_failure_not_contained:
  "handleUIEvent demoEnv \<lparr> event = ''languageChanged'', params = noParams \<rparr> twoPageSession
     = (Inl (Error ''Unknown event: languageChanged''), twoPageSession) \<and>
   fst (handleUIEvent demoEnv
          \<lparr> event = ''performExtraction'',
            params = noParams\<lparr> locator := Some ''#missing'', extraction := Some ''innerText'' \<rparr> \<rparr>
          twoPageSession) = Inr () \<and>
   trace (snd (handleUIEvent demoEnv
          \<lparr> event = ''performExtraction'',
            params = noParams\<lparr> locator := Some ''#missing'', extraction := Some ''innerText'' \<rparr> \<rparr>
          twoPageSession)) =
     [PushTemporaryCallLog
        \<lparr> frame = \<lparr> pageGuid = ''page@2'', pageAlias = ''page'', framePath = [] \<rparr>,
          action = \<lparr> name = ''extract_innerText'', selector = ''#missing'', signals = [],
                     detail = ArgsFields [] \<rparr>,
          startTime = 1000 \<rparr>,
      FrameQueryCall \<lparr> framePage = page2, frameName = ''main'' \<rparr> (InnerText ''#missing'' True) 5000,
      UpdateTemporaryCallLog 0 ErrorStatus (JString ''Timeout 5000ms exceeded''),
      UnhandledRejection (Error ''Timeout 5000ms exceeded'')]"
  by (simp add: handleUIEvent_def voidPromise_def executeUIExtraction_def performExtraction_def
        controllerRun_def frameForSelector_def pushTemporaryCallLog_def
        updateTemporaryCallLog_def emit_def elapse_def interpolate_def Let_def noParams_def
        trim_def isWhiteSpace_def twoPageSession_def emptySession_def demoEnv_def page2_def)

subsection \<open>The page of an evaluated expression\<close>

lemma evalTargets_append: "evalTargets (xs @ ys) = evalTargets xs @ evalTargets ys"
  by (induction xs rule: evalTargets.induct) simp_all

text \<open>C8. While at least one page is tracked, an \<open>executeArbitraryCode\<close> command
  evaluates its code against the first page of the recorder's page map in insertion order,
  and against no other page, whatever the code is; a command whose code is blank evaluates
  nothing.\<close>

theorem arbitrary_code_targets_first_page:
  "pageAliases st = (pg, al) # rest \<Longrightarrow>
     evalTargets (trace (snd (executeArbitraryCode e p st))) =
       evalTargets (trace st) @ (if notTrimmed (code p) then [] else [pg])"
  by (auto simp: executeArbitraryCode_def notTrimmed_def pushTemporaryCallLog_def
        executePlaywrightCode_def updateTemporaryCallLog_def sendExtractionResultToUI_def
        emit_def elapse_def Let_def evalTargets_append
      split: option.splits sum.splits prod.splits)

theorem arbitrary_code_targets_first_page_witness:
  "evalTargets (trace (snd (executeArbitraryCode demoEnv
       (noParams\<lparr> code := Some ''locator(x).click()'' \<rparr>) twoPageSession))) = [page2]"
  using arbitrary_code_targets_first_page
          [of twoPageSession page2 "''page''" "[(page1, ''page1'')]" demoEnv
              "noParams\<lparr> code := Some ''locator(x).click()'' \<rparr>"]
  by (simp add: twoPageSession_def emptySession_def noParams_def notTrimmed_def trim_def
        isWhiteSpace_def)

subsection \<open>What regenerating the sources leaves alone\<close>

text \<open>The loop over the generators writes nothing but the content of the output file.\<close>

lemma setContent_frame: "setContent t st = st\<lparr> throttledOutputFile := throttledOutputFile (setContent t st) \<rparr>"
  by (simp add: setContent_def split: option.splits)

lemma updateActionsLoop_frame:
  "updateActionsLoop e acts r gs srcs rid st = (res, st') \<Longrightarrow>
     st' = st\<lparr> throttledOutputFile := throttledOutputFile st' \<rparr>"
proof (induction gs arbitrary: srcs rid st)
  case Nil
  then show ?case by simp
next
  case (Cons g gs)
  show ?case
  proof (cases "generateCode e acts g (generatorOptions st)")
    case (Inl err)
    with Cons.prems show ?thesis by simp
  next
    case (Inr c)
    show ?thesis
    proof (cases "generatorId g = primaryGeneratorId st")
      case True
      with Cons.prems Inr obtain srcs1 rid1 where
        "updateActionsLoop e acts r gs srcs1 rid1 (setContent (genText c) st) = (res, st')"
        by (simp add: Let_def)
      from Cons.IH[OF this] have "st' = (setContent (genText c) st)\<lparr> throttledOutputFile := throttledOutputFile st' \<rparr>" .
      then show ?thesis by (simp add: setContent_def split: option.splits)
    next
      case False
      with Cons.prems Inr obtain srcs1 rid1 where
        "updateActionsLoop e acts r gs srcs1 rid1 st = (res, st')"
        by (simp add: Let_def)
      from Cons.IH[OF this] show ?thesis .
    qed
  qed
qed

lemma updateActionsLoop_keeps:
  assumes "updateActionsLoop e acts r gs srcs rid st = (res, st')"
  shows "actions st' = actions st" and "trace st' = trace st"
    and "recorderSources st' = recorderSources st" and "callLogs st' = callLogs st"
    and "generatorOptions st' = generatorOptions st"
proof -
  have eq: "st' = st\<lparr> throttledOutputFile := throttledOutputFile st' \<rparr>"
    using assms by (rule updateActionsLoop_frame)
  show "actions st' = actions st" by (subst eq) simp
  show "trace st' = trace st" by (subst eq) simp
  show "recorderSources st' = recorderSources st" by (subst eq) simp
  show "callLogs st' = callLogs st" by (subst eq) simp
  show "generatorOptions st' = generatorOptions st" by (subst eq) simp
qed

lemma updateActions_actions: "actions (snd (updateActions e r st)) = actions st"
proof (cases "updateActionsLoop e (collapseActions e (actions st)) r (languageSet e) [] None st")
  case (Pair res st1)
  then have "actions st1 = actions st" by (rule updateActionsLoop_keeps)
  with Pair show ?thesis
    by (cases res) (auto simp: updateActions_def revealSource_def pushAllSources_def emit_def
          split: option.splits)
qed

subsection \<open>Signals\<close>

lemma findLastIndex_None_iff: "findLastIndex P xs = None \<longleftrightarrow> (\<forall>x\<in>set xs. \<not> P x)"
  by (induction xs) (auto split: option.splits)

lemma findLastIndex_last_match:
  "P a \<Longrightarrow> \<forall>b\<in>set post. \<not> P b \<Longrightarrow> findLastIndex P (pre @ a # post) = Some (length pre)"
proof (induction pre)
  case Nil
  then have "findLastIndex P post = None" by (simp add: findLastIndex_None_iff)
  with Nil show ?case by simp
next
  case (Cons x pre)
  then show ?case by simp
qed

text \<open>C9. An arriving signal is appended at the end of the signals of the last recorded
  action whose frame has the page of the signal's frame: the signals already there keep
  their order, the other fields of that action and all other actions stay as they were
  (the list is the old one with that one element replaced). If no recorded action is on
  that page, the list of actions does not change. This holds whether or not the
  regeneration of the sources that follows succeeds.\<close>

theorem signal_attaches_to_last_action_of_page:
  "((\<forall>a\<in>set (actions st). pageGuid (frame a) \<noteq> pageGuid (signalFrame sg)) \<longrightarrow>
      actions (snd (onSignalAdded e sg st)) = actions st) \<and>
   (actions st = pre @ a # post \<and> pageGuid (frame a) = pageGuid (signalFrame sg) \<and>
    (\<forall>b\<in>set post. pageGuid (frame b) \<noteq> pageGuid (signalFrame sg)) \<longrightarrow>
      actions (snd (onSignalAdded e sg st)) =
        pre @ a\<lparr> action := (action a)\<lparr> signals := signals (action a) @ [signal sg] \<rparr> \<rparr> # post)"
proof (intro conjI impI)
  assume "\<forall>a\<in>set (actions st). pageGuid (frame a) \<noteq> pageGuid (signalFrame sg)"
  then have "findLastIndex (\<lambda>a. pageGuid (frame a) = pageGuid (signalFrame sg)) (actions st) = None"
    by (simp add: findLastIndex_None_iff)
  then show "actions (snd (onSignalAdded e sg st)) = actions st"
    by (simp add: onSignalAdded_def updateActions_actions)
next
  assume h: "actions st = pre @ a # post \<and> pageGuid (frame a) = pageGuid (signalFrame sg) \<and>
    (\<forall>b\<in>set post. pageGuid (frame b) \<noteq> pageGuid (signalFrame sg))"
  then have "findLastIndex (\<lambda>a. pageGuid (frame a) = pageGuid (signalFrame sg)) (pre @ a # post)
               = Some (length pre)"
    by (intro findLastIndex_last_match) simp_all
  with h show "actions (snd (onSignalAdded e sg st)) =
        pre @ a\<lparr> action := (action a)\<lparr> signals := signals (action a) @ [signal sg] \<rparr> \<rparr> # post"
    by (simp add: onSignalAdded_def updateActions_actions Let_def)
qed

theorem signal_attaches_to_last_action_of_page_witness:
  "actions (snd (onSignalAdded demoEnv
       \<lparr> signalFrame = \<lparr> pageGuid = ''page@3'', pageAlias = ''page'', framePath = [] \<rparr>,
         signal = Signal ''navigation'' \<rparr> recordedSession)) = [clickA, fillB, pressC] \<and>
   actions (snd (onSignalAdded demoEnv
       \<lparr> signalFrame = \<lparr> pageGuid = ''page@2'', pageAlias = ''page'', framePath = [] \<rparr>,
         signal = Signal ''navigation'' \<rparr> recordedSession)) =
     [clickA,
      fillB\<lparr> action := (action fillB)\<lparr> signals := [Signal ''popup'', Signal ''navigation''] \<rparr> \<rparr>,
      pressC]"
  using signal_attaches_to_last_action_of_page
          [of recordedSession
              "\<lparr> signalFrame = \<lparr> pageGuid = ''page@3'', pageAlias = ''page'', framePath = [] \<rparr>,
                 signal = Signal ''navigation'' \<rparr>" demoEnv "[]" clickA "[]"]
        signal_attaches_to_last_action_of_page
          [of recordedSession
              "\<lparr> signalFrame = \<lparr> pageGuid = ''page@2'', pageAlias = ''page'', framePath = [] \<rparr>,
                 signal = Signal ''navigation'' \<rparr>" demoEnv "[clickA]" fillB "[pressC]"]
  by (simp add: recordedSession_def twoPageSession_def emptySession_def clickA_def fillB_def
        pressC_def recorded_def)

subsection \<open>A generator that throws\<close>

lemma setContent_keeps: "generatorOptions (setContent t st) = generatorOptions st"
  "primaryGeneratorId (setContent t st) = primaryGeneratorId st"
  "selectedGeneratorId (setContent t st) = selectedGeneratorId st"
  by (simp_all add: setContent_def split: option.splits)

text \<open>One round of the loop, for a generator that succeeds.\<close>

lemma updateActionsLoop_step:
  assumes "generateCode e acts g (generatorOptions st) = Inr c"
  shows "\<exists>src rid1 st1. updateActionsLoop e acts r (g # gs) srcs rid st
        = updateActionsLoop e acts r gs (srcs @ [src]) rid1 st1 \<and>
      sourceId src = generatorId g \<and> generatorOptions st1 = generatorOptions st"
proof -
  let ?src = "\<lparr> isRecorded = True, sourceId = generatorId g, label = generatorName g,
                 sourceText = genText c, language = highlighter g, highlight = [],
                 revealLine = Some (length (filter (\<lambda>ch. ch = CHR 0x0A) (genText c))),
                 group = Some (groupName g), header = Some (genHeader c),
                 footer = Some (genFooter c), sourceActions = Some (genActionTexts c) \<rparr>"
  let ?st1 = "if generatorId g = primaryGeneratorId st then setContent (genText c) st else st"
  let ?rid1 = "if r \<and> generatorId g = selectedGeneratorId st then Some (generatorId g) else rid"
  have "updateActionsLoop e acts r (g # gs) srcs rid st
          = updateActionsLoop e acts r gs (srcs @ [?src]) ?rid1 ?st1"
    using assms by (simp add: Let_def)
  moreover have "sourceId ?src = generatorId g" by simp
  moreover have "generatorOptions ?st1 = generatorOptions st" by (simp add: setContent_keeps)
  ultimately show ?thesis
    by (intro exI[of _ ?src] exI[of _ ?rid1] exI[of _ ?st1] conjI)
qed

lemma updateActionsLoop_all_succeed:
  "\<forall>g\<in>set gs. \<exists>c. generateCode e acts g (generatorOptions st) = Inr c \<Longrightarrow>
     \<exists>srcs' rid' st'. updateActionsLoop e acts r gs srcs rid st = (Inr (srcs', rid'), st') \<and>
        map sourceId srcs' = map sourceId srcs @ map generatorId gs"
proof (induction gs arbitrary: srcs rid st)
  case Nil
  then show ?case by simp
next
  case (Cons g gs)
  then obtain c where c: "generateCode e acts g (generatorOptions st) = Inr c" by auto
  from updateActionsLoop_step[OF c, of r gs srcs rid] obtain src rid1 st1 where
    step: "updateActionsLoop e acts r (g # gs) srcs rid st
             = updateActionsLoop e acts r gs (srcs @ [src]) rid1 st1"
    and src: "sourceId src = generatorId g"
    and opts: "generatorOptions st1 = generatorOptions st"
    by blast
  have "\<forall>g\<in>set gs. \<exists>c. generateCode e acts g (generatorOptions st1) = Inr c"
    using Cons.prems opts by simp
  from Cons.IH[OF this, of "srcs @ [src]" rid1] obtain srcs' rid' st' where
    "updateActionsLoop e acts r gs (srcs @ [src]) rid1 st1 = (Inr (srcs', rid'), st')"
    "map sourceId srcs' = map sourceId (srcs @ [src]) @ map generatorId gs"
    by blast
  with step src show ?case by simp
qed

text \<open>One round of the loop again, now for every rest of the generator list at once, and
  the loop up to a generator that throws: it ends there, in the state the generators
  before it left.\<close>

lemma updateActionsLoop_round:
  assumes "generateCode e acts g (generatorOptions st) = Inr c"
  shows "\<exists>src rid1 st1.
      (\<forall>gs. updateActionsLoop e acts r (g # gs) srcs rid st
              = updateActionsLoop e acts r gs (srcs @ [src]) rid1 st1) \<and>
      generatorOptions st1 = generatorOptions st"
proof -
  let ?src = "\<lparr> isRecorded = True, sourceId = generatorId g, label = generatorName g,
                 sourceText = genText c, language = highlighter g, highlight = [],
                 revealLine = Some (length (filter (\<lambda>ch. ch = CHR 0x0A) (genText c))),
                 group = Some (groupName g), header = Some (genHeader c),
                 footer = Some (genFooter c), sourceActions = Some (genActionTexts c) \<rparr>"
  let ?st1 = "if generatorId g = primaryGeneratorId st then setContent (genText c) st else st"
  let ?rid1 = "if r \<and> generatorId g = selectedGeneratorId st then Some (generatorId g) else rid"
  have "\<forall>gs. updateActionsLoop e acts r (g # gs) srcs rid st
          = updateActionsLoop e acts r gs (srcs @ [?src]) ?rid1 ?st1"
    using assms by (simp add: Let_def)
  moreover have "generatorOptions ?st1 = generatorOptions st" by (simp add: setContent_keeps)
  ultimately show ?thesis
    by (intro exI[of _ ?src] exI[of _ ?rid1] exI[of _ ?st1] conjI)
qed

lemma updateActionsLoop_stops_at_failure:
  "\<forall>g\<in>set gs1. \<exists>c. generateCode e acts g (generatorOptions st) = Inr c \<Longrightarrow>
   generateCode e acts g (generatorOptions st) = Inl err \<Longrightarrow>
     updateActionsLoop e acts r (gs1 @ g # gs2) srcs rid st
       = (Inl err, snd (updateActionsLoop e acts r gs1 srcs rid st))"
proof (induction gs1 arbitrary: srcs rid st)
  case Nil
  then show ?case by simp
next
  case (Cons g1 gs1)
  then obtain c where c: "generateCode e acts g1 (generatorOptions st) = Inr c" by auto
  from updateActionsLoop_round[OF c, of r srcs rid] obtain src rid1 st1 where
    step: "\<And>gs. updateActionsLoop e acts r (g1 # gs) srcs rid st
             = updateActionsLoop e acts r gs (srcs @ [src]) rid1 st1"
    and opts: "generatorOptions st1 = generatorOptions st"
    by blast
  have "\<forall>g\<in>set gs1. \<exists>c. generateCode e acts g (generatorOptions st1) = Inr c"
    and "generateCode e acts g (generatorOptions st1) = Inl err"
    using Cons.prems opts by simp_all
  from Cons.IH[OF this, of "srcs @ [src]" rid1]
  show ?case using step[of "gs1 @ g # gs2"] step[of gs1] by simp
qed

text \<open>C7, as stated, fails: \<open>_updateActions\<close> calls the generators in a plain loop with
  no \<open>try\<close>. When the first of two generators throws, the second, which would succeed,
  is never asked: the exception leaves \<open>_updateActions\<close>, no source is stored and nothing
  is pushed to the control surface.\<close>

theorem broken_generator_stops_the_others_counterexample:
  "(\<exists>c. generateCode brokenEnv (collapseActions brokenEnv (actions emptySession)) pyGenerator
           (generatorOptions emptySession) = Inr c) \<and>
   updateActions brokenEnv True emptySession = (Inl (Error ''generator failed''), emptySession)"
  by (simp add: updateActions_def brokenEnv_def demoEnv_def jsGenerator_def pyGenerator_def
        emptySession_def)

text \<open>C7, amended. Regeneration is fail-fast. If every registered generator succeeds,
  \<open>_updateActions\<close> succeeds and stores one source per generator, in the order of the
  generators, each under the id of its generator. If a generator throws and those before
  it succeeded, \<open>_updateActions\<close> throws that exception and the generators after it are
  not run: the session is left exactly as the loop over the generators before the failing
  one leaves it (untouched when the failing one is the first), so the stored sources are
  the ones from before, and no effect (no push of sources, no reveal) has happened.\<close>

theorem generators_fail_fast:
  "((\<forall>g\<in>set (languageSet e).
        \<exists>c. generateCode e (collapseActions e (actions st)) g (generatorOptions st) = Inr c) \<longrightarrow>
      fst (updateActions e r st) = Inr () \<and>
      map sourceId (recorderSources (snd (updateActions e r st))) = map generatorId (languageSet e)) \<and>
   (languageSet e = gs1 @ g # gs2 \<and>
    (\<forall>g'\<in>set gs1.
        \<exists>c. generateCode e (collapseActions e (actions st)) g' (generatorOptions st) = Inr c) \<and>
    generateCode e (collapseActions e (actions st)) g (generatorOptions st) = Inl err \<longrightarrow>
      updateActions e r st =
        (Inl err, snd (updateActionsLoop e (collapseActions e (actions st)) r gs1 [] None st)) \<and>
      recorderSources (snd (updateActions e r st)) = recorderSources st \<and>
      trace (snd (updateActions e r st)) = trace st \<and>
      (gs1 = [] \<longrightarrow> snd (updateActions e r st) = st))"
proof (intro conjI impI)
  assume "\<forall>g\<in>set (languageSet e).
        \<exists>c. generateCode e (collapseActions e (actions st)) g (generatorOptions st) = Inr c"
  from updateActionsLoop_all_succeed[OF this, of r "[]" None]
  obtain srcs' rid' st' where
    loop: "updateActionsLoop e (collapseActions e (actions st)) r (languageSet e) [] None st
             = (Inr (srcs', rid'), st')"
    and ids: "map sourceId srcs' = map generatorId (languageSet e)"
    by auto
  from loop show "fst (updateActions e r st) = Inr ()"
    by (simp add: updateActions_def)
  from loop ids
  show "map sourceId (recorderSources (snd (updateActions e r st))) = map generatorId (languageSet e)"
    by (simp add: updateActions_def revealSource_def pushAllSources_def emit_def
          split: option.splits)
next
  assume h: "languageSet e = gs1 @ g # gs2 \<and>
    (\<forall>g'\<in>set gs1.
        \<exists>c. generateCode e (collapseActions e (actions st)) g' (generatorOptions st) = Inr c) \<and>
    generateCode e (collapseActions e (actions st)) g (generatorOptions st) = Inl err"
  let ?before = "updateActionsLoop e (collapseActions e (actions st)) r gs1 [] None st"
  from h have "updateActionsLoop e (collapseActions e (actions st)) r (gs1 @ g # gs2) [] None st
                 = (Inl err, snd ?before)"
    by (intro updateActionsLoop_stops_at_failure) simp_all
  with h have loop:
    "updateActionsLoop e (collapseActions e (actions st)) r (languageSet e) [] None st
       = (Inl err, snd ?before)"
    by simp
  have keep: "recorderSources (snd ?before) = recorderSources st" "trace (snd ?before) = trace st"
    using loop by (rule updateActionsLoop_keeps)+
  from loop show u: "updateActions e r st = (Inl err, snd ?before)"
    by (simp add: updateActions_def)
  from u keep show "recorderSources (snd (updateActions e r st)) = recorderSources st" by simp
  from u keep show "trace (snd (updateActions e r st)) = trace st" by simp
  assume "gs1 = []"
  with u show "snd (updateActions e r st) = st" by simp
qed

text \<open>With \<open>python\<close> as primary generator and an output file, the working environment
  writes python's text to the file, while the environment whose first generator throws
  leaves the session, file included, as it was.\<close>

theorem generators_fail_fast_witness:
  "fst (updateActions demoEnv True fileSession) = Inr () \<and>
   map sourceId (recorderSources (snd (updateActions demoEnv True fileSession)))
     = [''javascript'', ''python''] \<and>
   updateActions brokenEnv True fileSession = (Inl (Error ''generator failed''), fileSession)"
  using generators_fail_fast[of demoEnv fileSession True "[]" jsGenerator "[]" "Error ''x''"]
        generators_fail_fast[of brokenEnv fileSession True "[]" jsGenerator "[pyGenerator]"
                                "Error ''generator failed''"]
  by (simp add: demoEnv_def brokenEnv_def jsGenerator_def pyGenerator_def)

lemma all_generators_reach_the_output_file:
  "throttledOutputFile (snd (updateActions demoEnv True fileSession))
     = Some (Some (''begin'' @ [CHR 0x0A] @ ''end''))"
  by (simp add: updateActions_def demoEnv_def jsGenerator_def pyGenerator_def fileSession_def
        recordedSession_def twoPageSession_def emptySession_def setContent_def revealSource_def
        pushAllSources_def emit_def Let_def)

subsection \<open>The queries of an extraction\<close>

lemma performExtraction_supported:
  "(k, q) \<in> set [(''innerText'', InnerText sel True), (''textContent'', TextContent sel True),
       (''getAttribute'',
          GetAttribute sel (js_or (case as of None \<Rightarrow> JUndefined | Some xs \<Rightarrow> arg0 xs) (JString [])) True),
       (''isVisible'', IsVisible sel True), (''isEnabled'', IsEnabled sel True),
       (''isChecked'', IsChecked sel True), (''count'', LocatorCount sel),
       (''boundingBox'', ElementBoundingBox sel True)] \<Longrightarrow>
   performExtraction e fr sel (Some k) as st = controllerRun e fr q 5000 st"
  by (auto simp: performExtraction_def)

lemma controllerRun_eq:
  "controllerRun e fr q t st =
     (fst (frameCall e fr q t),
      st\<lparr> trace := trace st @ [FrameQueryCall fr q t], now := now st + snd (frameCall e fr q t) \<rparr>)"
  by (simp add: controllerRun_def emit_def elapse_def split: prod.splits)

lemma performExtraction_unsupported:
  "k \<notin> Some ` {''innerText'', ''textContent'', ''getAttribute'', ''isVisible'', ''isEnabled'',
               ''isChecked'', ''count'', ''boundingBox''} \<Longrightarrow>
   performExtraction e fr sel k as st = (Inl (Error (''Unsupported extraction: '' @ interpolate k)), st)"
  by (simp add: performExtraction_def)

text \<open>A command of a supported kind, with a locator that is not blank and a frame that was
  resolved: its effects are the push of the entry, the one query on that frame with the
  locator as selector under the deadline 5000, and the update that the outcome of the
  query calls for (followed by the result sent to the control surface on success).\<close>

lemma executeUIExtraction_supported:
  assumes tbl: "(k, q) \<in> set [(''innerText'', InnerText loc True), (''textContent'', TextContent loc True),
       (''getAttribute'',
          GetAttribute loc (js_or (arg0 (case args p of None \<Rightarrow> [] | Some xs \<Rightarrow> xs)) (JString [])) True),
       (''isVisible'', IsVisible loc True), (''isEnabled'', IsEnabled loc True),
       (''isChecked'', IsChecked loc True), (''count'', LocatorCount loc),
       (''boundingBox'', ElementBoundingBox loc True)]"
    and p: "extraction p = Some k" "locator p = Some loc" "trim loc \<noteq> []"
    and fr: "frameForSelector e st loc = Inr fr"
  shows "fst (executeUIExtraction e p st) =
           (case fst (frameCall e fr q 5000) of Inl err \<Rightarrow> Inl err | Inr _ \<Rightarrow> Inr ())"
    and "drop (length (trace st)) (trace (snd (executeUIExtraction e p st))) =
           PushTemporaryCallLog
             \<lparr> frame = \<lparr> pageGuid = guid (framePage fr), pageAlias = ''page'', framePath = [] \<rparr>,
               action = \<lparr> name = ''extract_'' @ k, selector = loc, signals = [],
                          detail = ArgsFields (case args p of None \<Rightarrow> [] | Some xs \<Rightarrow> xs) \<rparr>,
               startTime = now st \<rparr> #
           FrameQueryCall fr q 5000 #
           (case fst (frameCall e fr q 5000) of
              Inl err \<Rightarrow> [UpdateTemporaryCallLog (nextCallLogId st) ErrorStatus
                           (JString (errorMessage err))]
            | Inr v \<Rightarrow> [UpdateTemporaryCallLog (nextCallLogId st) Done v, ExtractionResult v k])"
proof -
  let ?as = "case args p of None \<Rightarrow> [] | Some xs \<Rightarrow> xs"
  have tbl': "(k, q) \<in> set [(''innerText'', InnerText loc True), (''textContent'', TextContent loc True),
       (''getAttribute'',
          GetAttribute loc (js_or (case Some ?as of None \<Rightarrow> JUndefined | Some xs \<Rightarrow> arg0 xs) (JString [])) True),
       (''isVisible'', IsVisible loc True), (''isEnabled'', IsEnabled loc True),
       (''isChecked'', IsChecked loc True), (''count'', LocatorCount loc),
       (''boundingBox'', ElementBoundingBox loc True)]"
    using tbl by simp
  have run: "performExtraction e fr loc (Some k) (Some ?as) s =
               (fst (frameCall e fr q 5000),
                s\<lparr> trace := trace s @ [FrameQueryCall fr q 5000],
                   now := now s + snd (frameCall e fr q 5000) \<rparr>)" for s
    using performExtraction_supported[OF tbl', of e fr s] by (simp add: controllerRun_eq)
  show "fst (executeUIExtraction e p st) =
           (case fst (frameCall e fr q 5000) of Inl err \<Rightarrow> Inl err | Inr _ \<Rightarrow> Inr ())"
    using p fr
    by (cases "fst (frameCall e fr q 5000)")
       (simp_all add: executeUIExtraction_def run pushTemporaryCallLog_def Let_def)
  show "drop (length (trace st)) (trace (snd (executeUIExtraction e p st))) =
           PushTemporaryCallLog
             \<lparr> frame = \<lparr> pageGuid = guid (framePage fr), pageAlias = ''page'', framePath = [] \<rparr>,
               action = \<lparr> name = ''extract_'' @ k, selector = loc, signals = [],
                          detail = ArgsFields (case args p of None \<Rightarrow> [] | Some xs \<Rightarrow> xs) \<rparr>,
               startTime = now st \<rparr> #
           FrameQueryCall fr q 5000 #
           (case fst (frameCall e fr q 5000) of
              Inl err \<Rightarrow> [UpdateTemporaryCallLog (nextCallLogId st) ErrorStatus
                           (JString (errorMessage err))]
            | Inr v \<Rightarrow> [UpdateTemporaryCallLog (nextCallLogId st) Done v, ExtractionResult v k])"
    using p fr
    by (cases "fst (frameCall e fr q 5000)")
       (simp_all add: executeUIExtraction_def run pushTemporaryCallLog_def
          updateTemporaryCallLog_def sendExtractionResultToUI_def emit_def interpolate_def Let_def)
qed

text \<open>C5. \<open>_performExtraction\<close> maps each of the eight extraction kinds to its
  read-only query on the given frame and selector (\<open>getAttribute\<close> with its first
  argument or the empty string as attribute name, \<open>count\<close> to \<open>locatorCount\<close>,
  \<open>boundingBox\<close> to \<open>elementBoundingBox\<close>), performs exactly that query, always under
  the deadline 5000, and returns its outcome. A \<open>performExtraction\<close> command of one of
  these kinds, once its locator is validated and its frame resolved, dispatches exactly
  that query against the resolved frame with the locator as selector, under the same
  deadline; a failure of the query (a timeout as any other) sets the entry pushed to the
  call log to \<open>error\<close> with the message and is rethrown. Any other kind fails with
  \<open>Unsupported extraction: <kind>\<close> and performs no query; through
  \<open>_executeUIExtraction\<close> that failure takes the same path: the entry is set to
  \<open>error\<close> with the message, and the error is rethrown.\<close>

theorem extraction_dispatch:
  "(\<forall>(k, q) \<in> set [(''innerText'', InnerText sel True), (''textContent'', TextContent sel True),
       (''getAttribute'',
          GetAttribute sel (js_or (case as of None \<Rightarrow> JUndefined | Some xs \<Rightarrow> arg0 xs) (JString [])) True),
       (''isVisible'', IsVisible sel True), (''isEnabled'', IsEnabled sel True),
       (''isChecked'', IsChecked sel True), (''count'', LocatorCount sel),
       (''boundingBox'', ElementBoundingBox sel True)].
      performExtraction e fr sel (Some k) as st =
        (fst (frameCall e fr q 5000),
         st\<lparr> trace := trace st @ [FrameQueryCall fr q 5000],
             now := now st + snd (frameCall e fr q 5000) \<rparr>)) \<and>
   (\<forall>(k, q) \<in> set [(''innerText'', InnerText loc True), (''textContent'', TextContent loc True),
       (''getAttribute'',
          GetAttribute loc (js_or (arg0 (case args p of None \<Rightarrow> [] | Some xs \<Rightarrow> xs)) (JString [])) True),
       (''isVisible'', IsVisible loc True), (''isEnabled'', IsEnabled loc True),
       (''isChecked'', IsChecked loc True), (''count'', LocatorCount loc),
       (''boundingBox'', ElementBoundingBox loc True)].
      extraction p = Some k \<and> locator p = Some loc \<and> trim loc \<noteq> [] \<and>
      frameForSelector e st loc = Inr fr \<longrightarrow>
        fst (executeUIExtraction e p st) =
          (case fst (frameCall e fr q 5000) of Inl err \<Rightarrow> Inl err | Inr _ \<Rightarrow> Inr ()) \<and>
        drop (length (trace st)) (trace (snd (executeUIExtraction e p st))) =
          PushTemporaryCallLog
            \<lparr> frame = \<lparr> pageGuid = guid (framePage fr), pageAlias = ''page'', framePath = [] \<rparr>,
              action = \<lparr> name = ''extract_'' @ k, selector = loc, signals = [],
                         detail = ArgsFields (case args p of None \<Rightarrow> [] | Some xs \<Rightarrow> xs) \<rparr>,
              startTime = now st \<rparr> #
          FrameQueryCall fr q 5000 #
          (case fst (frameCall e fr q 5000) of
             Inl err \<Rightarrow> [UpdateTemporaryCallLog (nextCallLogId st) ErrorStatus
                          (JString (errorMessage err))]
           | Inr v \<Rightarrow> [UpdateTemporaryCallLog (nextCallLogId st) Done v, ExtractionResult v k])) \<and>
   (k' \<notin> Some ` {''innerText'', ''textContent'', ''getAttribute'', ''isVisible'', ''isEnabled'',
                ''isChecked'', ''count'', ''boundingBox''} \<longrightarrow>
      performExtraction e fr sel k' as st
        = (Inl (Error (''Unsupported extraction: '' @ interpolate k')), st) \<and>
      (extraction p = k' \<and> locator p = Some loc \<and> trim loc \<noteq> [] \<and>
       frameForSelector e st loc = Inr fr \<longrightarrow>
         fst (executeUIExtraction e p st) = Inl (Error (''Unsupported extraction: '' @ interpolate k')) \<and>
         drop (length (trace st)) (trace (snd (executeUIExtraction e p st))) =
           [PushTemporaryCallLog
              \<lparr> frame = \<lparr> pageGuid = guid (framePage fr), pageAlias = ''page'', framePath = [] \<rparr>,
                action = \<lparr> name = ''extract_'' @ interpolate k', selector = loc, signals = [],
                           detail = ArgsFields (case args p of None \<Rightarrow> [] | Some xs \<Rightarrow> xs) \<rparr>,
                startTime = now st \<rparr>,
            UpdateTemporaryCallLog (nextCallLogId st) ErrorStatus
              (JString (''Unsupported extraction: '' @ interpolate k'))]))"
proof (intro conjI)
  show "(\<forall>(k, q) \<in> set [(''innerText'', InnerText sel True), (''textContent'', TextContent sel True),
       (''getAttribute'',
          GetAttribute sel (js_or (case as of None \<Rightarrow> JUndefined | Some xs \<Rightarrow> arg0 xs) (JString [])) True),
       (''isVisible'', IsVisible sel True), (''isEnabled'', IsEnabled sel True),
       (''isChecked'', IsChecked sel True), (''count'', LocatorCount sel),
       (''boundingBox'', ElementBoundingBox sel True)].
      performExtraction e fr sel (Some k) as st =
        (fst (frameCall e fr q 5000),
         st\<lparr> trace := trace st @ [FrameQueryCall fr q 5000],
             now := now st + snd (frameCall e fr q 5000) \<rparr>))"
  proof (intro ballI)

    fix x
    assume x: "x \<in> set [(''innerText'', InnerText sel True), (''textContent'', TextContent sel True),
         (''getAttribute'',
            GetAttribute sel (js_or (case as of None \<Rightarrow> JUndefined | Some xs \<Rightarrow> arg0 xs) (JString [])) True),
         (''isVisible'', IsVisible sel True), (''isEnabled'', IsEnabled sel True),
         (''isChecked'', IsChecked sel True), (''count'', LocatorCount sel),
         (''boundingBox'', ElementBoundingBox sel True)]"
    obtain k q where kq: "x = (k, q)" by (cases x)
    from x[unfolded kq] have "performExtraction e fr sel (Some k) as st = controllerRun e fr q 5000 st"
      by (rule performExtraction_supported)
    then show "case x of (k, q) \<Rightarrow> performExtraction e fr sel (Some k) as st =
          (fst (frameCall e fr q 5000),
           st\<lparr> trace := trace st @ [FrameQueryCall fr q 5000],
               now := now st + snd (frameCall e fr q 5000) \<rparr>)"
      by (simp add: kq controllerRun_eq)
  qed
  show "(\<forall>(k, q) \<in> set [(''innerText'', InnerText loc True), (''textContent'', TextContent loc True),
       (''getAttribute'',
          GetAttribute loc (js_or (arg0 (case args p of None \<Rightarrow> [] | Some xs \<Rightarrow> xs)) (JString [])) True),
       (''isVisible'', IsVisible loc True), (''isEnabled'', IsEnabled loc True),
       (''isChecked'', IsChecked loc True), (''count'', LocatorCount loc),
       (''boundingBox'', ElementBoundingBox loc True)].
      extraction p = Some k \<and> locator p = Some loc \<and> trim loc \<noteq> [] \<and>
      frameForSelector e st loc = Inr fr \<longrightarrow>
        fst (executeUIExtraction e p st) =
          (case fst (frameCall e fr q 5000) of Inl err \<Rightarrow> Inl err | Inr _ \<Rightarrow> Inr ()) \<and>
        drop (length (trace st)) (trace (snd (executeUIExtraction e p st))) =
          PushTemporaryCallLog
            \<lparr> frame = \<lparr> pageGuid = guid (framePage fr), pageAlias = ''page'', framePath = [] \<rparr>,
              action = \<lparr> name = ''extract_'' @ k, selector = loc, signals = [],
                         detail = ArgsFields (case args p of None \<Rightarrow> [] | Some xs \<Rightarrow> xs) \<rparr>,
              startTime = now st \<rparr> #
          FrameQueryCall fr q 5000 #
          (case fst (frameCall e fr q 5000) of
             Inl err \<Rightarrow> [UpdateTemporaryCallLog (nextCallLogId st) ErrorStatus
                          (JString (errorMessage err))]
           | Inr v \<Rightarrow> [UpdateTemporaryCallLog (nextCallLogId st) Done v, ExtractionResult v k]))"
  proof (intro ballI)
    fix x
    assume x: "x \<in> set [(''innerText'', InnerText loc True), (''textContent'', TextContent loc True),
       (''getAttribute'',
          GetAttribute loc (js_or (arg0 (case args p of None \<Rightarrow> [] | Some xs \<Rightarrow> xs)) (JString [])) True),
       (''isVisible'', IsVisible loc True), (''isEnabled'', IsEnabled loc True),
       (''isChecked'', IsChecked loc True), (''count'', LocatorCount loc),
       (''boundingBox'', ElementBoundingBox loc True)]"
    obtain k q where kq: "x = (k, q)" by (cases x)
    show "case x of (k, q) \<Rightarrow>
      extraction p = Some k \<and> locator p = Some loc \<and> trim loc \<noteq> [] \<and>
      frameForSelector e st loc = Inr fr \<longrightarrow>
        fst (executeUIExtraction e p st) =
          (case fst (frameCall e fr q 5000) of Inl err \<Rightarrow> Inl err | Inr _ \<Rightarrow> Inr ()) \<and>
        drop (length (trace st)) (trace (snd (executeUIExtraction e p st))) =
          PushTemporaryCallLog
            \<lparr> frame = \<lparr> pageGuid = guid (framePage fr), pageAlias = ''page'', framePath = [] \<rparr>,
              action = \<lparr> name = ''extract_'' @ k, selector = loc, signals = [],
                         detail = ArgsFields (case args p of None \<Rightarrow> [] | Some xs \<Rightarrow> xs) \<rparr>,
              startTime = now st \<rparr> #
          FrameQueryCall fr q 5000 #
          (case fst (frameCall e fr q 5000) of
             Inl err \<Rightarrow> [UpdateTemporaryCallLog (nextCallLogId st) ErrorStatus
                          (JString (errorMessage err))]
           | Inr v \<Rightarrow> [UpdateTemporaryCallLog (nextCallLogId st) Done v, ExtractionResult v k])"
      unfolding kq prod.case
    proof (intro impI, elim conjE, intro conjI)
      assume h: "extraction p = Some k" "locator p = Some loc" "trim loc \<noteq> []"
        "frameForSelector e st loc = Inr fr"
      from executeUIExtraction_supported(1)[OF x[unfolded kq] h]
      show "fst (executeUIExtraction e p st) =
          (case fst (frameCall e fr q 5000) of Inl err \<Rightarrow> Inl err | Inr _ \<Rightarrow> Inr ())" .
      from executeUIExtraction_supported(2)[OF x[unfolded kq] h]
      show "drop (length (trace st)) (trace (snd (executeUIExtraction e p st))) =
          PushTemporaryCallLog
            \<lparr> frame = \<lparr> pageGuid = guid (framePage fr), pageAlias = ''page'', framePath = [] \<rparr>,
              action = \<lparr> name = ''extract_'' @ k, selector = loc, signals = [],
                         detail = ArgsFields (case args p of None \<Rightarrow> [] | Some xs \<Rightarrow> xs) \<rparr>,
              startTime = now st \<rparr> #
          FrameQueryCall fr q 5000 #
          (case fst (frameCall e fr q 5000) of
             Inl err \<Rightarrow> [UpdateTemporaryCallLog (nextCallLogId st) ErrorStatus
                          (JString (errorMessage err))]
           | Inr v \<Rightarrow> [UpdateTemporaryCallLog (nextCallLogId st) Done v, ExtractionResult v k])" .
    qed
  qed
  show "(k' \<notin> Some ` {''innerText'', ''textContent'', ''getAttribute'', ''isVisible'', ''isEnabled'',
                ''isChecked'', ''count'', ''boundingBox''} \<longrightarrow>
      performExtraction e fr sel k' as st
        = (Inl (Error (''Unsupported extraction: '' @ interpolate k')), st) \<and>
      (extraction p = k' \<and> locator p = Some loc \<and> trim loc \<noteq> [] \<and>
       frameForSelector e st loc = Inr fr \<longrightarrow>
         fst (executeUIExtraction e p st) = Inl (Error (''Unsupported extraction: '' @ interpolate k')) \<and>
         drop (length (trace st)) (trace (snd (executeUIExtraction e p st))) =
           [PushTemporaryCallLog
              \<lparr> frame = \<lparr> pageGuid = guid (framePage fr), pageAlias = ''page'', framePath = [] \<rparr>,
                action = \<lparr> name = ''extract_'' @ interpolate k', selector = loc, signals = [],
                           detail = ArgsFields (case args p of None \<Rightarrow> [] | Some xs \<Rightarrow> xs) \<rparr>,
                startTime = now st \<rparr>,
            UpdateTemporaryCallLog (nextCallLogId st) ErrorStatus
              (JString (''Unsupported extraction: '' @ interpolate k'))]))"
  proof (intro conjI impI)

    assume k: "k' \<notin> Some ` {''innerText'', ''textContent'', ''getAttribute'', ''isVisible'', ''isEnabled'',
                  ''isChecked'', ''count'', ''boundingBox''}"
    then show "performExtraction e fr sel k' as st
          = (Inl (Error (''Unsupported extraction: '' @ interpolate k')), st)"
      by (rule performExtraction_unsupported)
    have u: "\<And>f s a t. performExtraction e f s k' a t
          = (Inl (Error (''Unsupported extraction: '' @ interpolate k')), t)"
      using k by (rule performExtraction_unsupported)
    assume h: "extraction p = k' \<and> locator p = Some loc \<and> trim loc \<noteq> [] \<and>
         frameForSelector e st loc = Inr fr"
    then show "fst (executeUIExtraction e p st) = Inl (Error (''Unsupported extraction: '' @ interpolate k'))"
      by (simp add: executeUIExtraction_def u pushTemporaryCallLog_def Let_def)
    from h show "drop (length (trace st)) (trace (snd (executeUIExtraction e p st))) =
             [PushTemporaryCallLog
                \<lparr> frame = \<lparr> pageGuid = guid (framePage fr), pageAlias = ''page'', framePath = [] \<rparr>,
                  action = \<lparr> name = ''extract_'' @ interpolate k', selector = loc, signals = [],
                             detail = ArgsFields (case args p of None \<Rightarrow> [] | Some xs \<Rightarrow> xs) \<rparr>,
                  startTime = now st \<rparr>,
              UpdateTemporaryCallLog (nextCallLogId st) ErrorStatus
                (JString (''Unsupported extraction: '' @ interpolate k'))]"
      by (simp add: executeUIExtraction_def u pushTemporaryCallLog_def updateTemporaryCallLog_def
            Let_def)
  qed
qed

theorem extraction_dispatch_witness:
  "performExtraction demoEnv \<lparr> framePage = page2, frameName = ''main'' \<rparr> ''#title''
       (Some ''innerText'') None twoPageSession =
     (Inr (JString ''Hello''),
      twoPageSession\<lparr> trace := [FrameQueryCall \<lparr> framePage = page2, frameName = ''main'' \<rparr>
                                    (InnerText ''#title'' True) 5000],
                       now := 1003 \<rparr>) \<and>
   performExtraction demoEnv \<lparr> framePage = page2, frameName = ''main'' \<rparr> ''#title''
       (Some ''count'') None twoPageSession =
     (Inr (JBool True),
      twoPageSession\<lparr> trace := [FrameQueryCall \<lparr> framePage = page2, frameName = ''main'' \<rparr>
                                    (LocatorCount ''#title'') 5000],
                       now := 1003 \<rparr>) \<and>
   fst (executeUIExtraction demoEnv
          (noParams\<lparr> locator := Some ''#title'', extraction := Some ''innerText'' \<rparr>)
          twoPageSession) = Inr () \<and>
   trace (snd (executeUIExtraction demoEnv
          (noParams\<lparr> locator := Some ''#title'', extraction := Some ''innerText'' \<rparr>)
          twoPageSession)) =
     [PushTemporaryCallLog
        \<lparr> frame = \<lparr> pageGuid = ''page@2'', pageAlias = ''page'', framePath = [] \<rparr>,
          action = \<lparr> name = ''extract_innerText'', selector = ''#title'', signals = [],
                     detail = ArgsFields [] \<rparr>,
          startTime = 1000 \<rparr>,
      FrameQueryCall \<lparr> framePage = page2, frameName = ''main'' \<rparr> (InnerText ''#title'' True) 5000,
      UpdateTemporaryCallLog 0 Done (JString ''Hello''),
      ExtractionResult (JString ''Hello'') ''innerText''] \<and>
   fst (executeUIExtraction demoEnv
          (noParams\<lparr> locator := Some ''#missing'', extraction := Some ''innerText'' \<rparr>)
          twoPageSession) = Inl (Error ''Timeout 5000ms exceeded'') \<and>
   trace (snd (executeUIExtraction demoEnv
          (noParams\<lparr> locator := Some ''#missing'', extraction := Some ''innerText'' \<rparr>)
          twoPageSession)) =
     [PushTemporaryCallLog
        \<lparr> frame = \<lparr> pageGuid = ''page@2'', pageAlias = ''page'', framePath = [] \<rparr>,
          action = \<lparr> name = ''extract_innerText'', selector = ''#missing'', signals = [],
                     detail = ArgsFields [] \<rparr>,
          startTime = 1000 \<rparr>,
      FrameQueryCall \<lparr> framePage = page2, frameName = ''main'' \<rparr> (InnerText ''#missing'' True) 5000,
      UpdateTemporaryCallLog 0 ErrorStatus (JString ''Timeout 5000ms exceeded'')] \<and>
   performExtraction demoEnv \<lparr> framePage = page2, frameName = ''main'' \<rparr> ''#title''
       (Some ''innerHTML'') None twoPageSession =
     (Inl (Error ''Unsupported extraction: innerHTML''), twoPageSession) \<and>
   fst (executeUIExtraction demoEnv
          (noParams\<lparr> locator := Some ''#title'', extraction := Some ''innerHTML'' \<rparr>)
          twoPageSession) = Inl (Error ''Unsupported extraction: innerHTML'') \<and>
   trace (snd (executeUIExtraction demoEnv
          (noParams\<lparr> locator := Some ''#title'', extraction := Some ''innerHTML'' \<rparr>)
          twoPageSession)) =
     [PushTemporaryCallLog
        \<lparr> frame = \<lparr> pageGuid = ''page@2'', pageAlias = ''page'', framePath = [] \<rparr>,
          action = \<lparr> name = ''extract_innerHTML'', selector = ''#title'', signals = [],
                     detail = ArgsFields [] \<rparr>,
          startTime = 1000 \<rparr>,
      UpdateTemporaryCallLog 0 ErrorStatus (JString ''Unsupported extraction: innerHTML'')]"
  using extraction_dispatch
          [of "''#title''" None demoEnv "\<lparr> framePage = page2, frameName = ''main'' \<rparr>"
              twoPageSession "''#title''"
              "noParams\<lparr> locator := Some ''#title'', extraction := Some ''innerText'' \<rparr>"
              "Some ''innerText''"]
        extraction_dispatch
          [of "''#title''" None demoEnv "\<lparr> framePage = page2, frameName = ''main'' \<rparr>"
              twoPageSession "''#missing''"
              "noParams\<lparr> locator := Some ''#missing'', extraction := Some ''innerText'' \<rparr>"
              "Some ''innerText''"]
        extraction_dispatch
          [of "''#title''" None demoEnv "\<lparr> framePage = page2, frameName = ''main'' \<rparr>"
              twoPageSession "''#title''"
              "noParams\<lparr> locator := Some ''#title'', extraction := Some ''innerHTML'' \<rparr>"
              "Some ''innerHTML''"]
  by (simp add: noParams_def interpolate_def trim_def isWhiteSpace_def twoPageSession_def
        emptySession_def frameForSelector_def demoEnv_def page2_def)

subsection \<open>The life of a temporary call-log entry\<close>













subsection \<open>What later events do to the call log\<close>


























text \<open>The first example of the spec's testable properties: a click on \<open>#submit\<close> with one
  entry that ends \<open>done\<close> and carries the selector.\<close>

lemma submit_click_example:
  "callLogs (snd (handleUIEvent demoEnv \<lparr> event = ''performAction'', params = sampleParams \<rparr>
                    twoPageSession)) =
     [\<lparr> logId = 0, title = ''click'', messages = [], status = Done, error = None, reveal = None,
        duration = Some 12, paramsUrl = None, paramsSelector = Some ''#submit'',
        createdAt = 1000 \<rparr>]"
  by (simp add: handleUIEvent_def voidPromise_def executeUIAction_def buildSyntheticAction_def
        frameForSelector_def pushTemporaryCallLog_def updateTemporaryCallLog_def
        completeEntry_def aliasOrPage_def emit_def elapse_def Let_def
        sampleParams_def noParams_def twoPageSession_def emptySession_def demoEnv_def
        trim_def isWhiteSpace_def)

text \<open>Four events in a row: an expression that fails, a click that succeeds, a clear, and
  a \<open>hover\<close> that cannot be built. Two entries, each as its own command left it.\<close>

lemma entries_stay_example:
  "map (\<lambda>x. (logId x, status x, error x))
     (callLogs (dispatchAll demoEnv
        [\<lparr> event = ''executeArbitraryCode'', params = sampleParams \<rparr>,
         \<lparr> event = ''performAction'', params = sampleParams \<rparr>,
         \<lparr> event = ''clear'', params = noParams \<rparr>,
         \<lparr> event = ''performAction'', params = sampleParams\<lparr> actionName := Some ''hover'' \<rparr> \<rparr>]
        twoPageSession)) =
     [(0, ErrorStatus, Some (''Failed to execute code '' @ [CHR 0x22] @ ''boom()'' @ [CHR 0x22] @ '': boom'')),
      (1, Done, None)]"
  by (simp add: handleUIEvent_def voidPromise_def catchAndLog_def executeUIAction_def
        executeArbitraryCode_def executePlaywrightCode_def buildSyntheticAction_def
        frameForSelector_def pushTemporaryCallLog_def updateTemporaryCallLog_def
        completeEntry_def aliasOrPage_def updateActions_def setContent_def revealSource_def
        pushAllSources_def emit_def elapse_def interpolate_def Let_def
        sampleParams_def noParams_def twoPageSession_def emptySession_def demoEnv_def
        jsGenerator_def pyGenerator_def page1_def page2_def trim_def isWhiteSpace_def)

end
